theory Spec2Isabelle
  imports
    Complex_Main
    "HOL-Library.Word"
    "HOL-Library.Char_ord"
    "HOL-Library.List_Lexorder"
    "HOL-Library.Multiset"
    "HOL-Library.Log_Nat"
begin

unbundle bit_operations_syntax

text \<open>
  A model of the SATIM payment module: the signature engine, the two status mappers, the
  gateway client, the payment orchestrator and the callback processor.  The sections
  follow the source files.  What the platform provides (the HMAC, the HTTP client, the
  clock, the random numbers, the registered handlers, the logger and the response object
  of the callback processor) is a parameter of the function that uses it; a
  \<open>throw\<close> is a value of a sum type.  The gateway client and the orchestrator log
  what they do; these calls have no part in what the operations return or send, and are
  left out.
\<close>

section \<open>JavaScript values\<close>

text \<open>
  Strings are sequences of code units; the model keeps the code units below 256
  (\<^typ>\<open>char\<close>).  A value is a JSON primitive, or \<open>JNative k\<close>: the built-in
  function or object that every object literal inherits from \<open>Object.prototype\<close>
  under the property name \<open>k\<close>.  The numbers among the values are the integer-valued
  ones.  An object is the list of its own properties.
\<close>

datatype js_value = JStr string | JNum int | JBool bool | JNull | JUndefined | JNative string

type_synonym js_object = "(string \<times> js_value) list"

text \<open>Truthiness, as used by \<open>!x\<close>, \<open>x || y\<close> and \<open>if (x)\<close>.\<close>

fun truthy :: "js_value \<Rightarrow> bool" where
  "truthy (JStr s) = (s \<noteq> [])"
| "truthy (JNum n) = (n \<noteq> 0)"
| "truthy (JBool b) = b"
| "truthy JNull = False"
| "truthy JUndefined = False"
| "truthy (JNative k) = True"

definition digit_char :: "nat \<Rightarrow> char" where
  "digit_char d = ''0123456789'' ! d"

text \<open>The decimal digits of a natural number.\<close>

fun nat_to_string :: "nat \<Rightarrow> string" where
  "nat_to_string n =
     (if n < 10 then [digit_char n] else nat_to_string (n div 10) @ [digit_char (n mod 10)])"

declare nat_to_string.simps [simp del]

subsection \<open>Numbers\<close>

text \<open>
  A number is an IEEE 754 double, here the rational that it denotes.  An arithmetic
  operation yields the double nearest to the exact result, a tie going to the even
  significand: \<open>exponent q\<close> is the \<open>e\<close> with \<open>2\<^sup>e \<le> q < 2\<^sup>e\<^sup>+\<^sup>1\<close>, and the doubles
  of that binade are the multiples of \<open>2\<^sup>e\<^sup>-\<^sup>5\<^sup>2\<close>, of \<open>2\<^sup>-\<^sup>1\<^sup>0\<^sup>7\<^sup>4\<close> below the normal
  range.  (Results of magnitude \<open>2\<^sup>1\<^sup>0\<^sup>2\<^sup>4\<close> and more, which are infinite, do not occur
  in this module.)
\<close>

definition round_half_even :: "rat \<Rightarrow> int" where
  "round_half_even q =
     (let f = \<lfloor>q\<rfloor>; d = q - of_int f
      in if d < 1 / 2 then f else if 1 / 2 < d then f + 1 else if even f then f else f + 1)"

definition exponent :: "rat \<Rightarrow> int" where
  "exponent q =
     (if 1 \<le> q then int (floorlog 2 (nat \<lfloor>q\<rfloor>)) - 1
      else - int (floorlog 2 (nat (\<lceil>1 / q\<rceil> - 1))))"

definition ulp :: "rat \<Rightarrow> rat" where
  "ulp q = 2 powi (max (exponent q) (- 1022) - 52)"

definition nearest_double :: "rat \<Rightarrow> rat" where
  "nearest_double q =
     (if q = 0 then 0
      else sgn q * of_int (round_half_even (\<bar>q\<bar> / ulp \<bar>q\<bar>)) * ulp \<bar>q\<bar>)"

definition is_double :: "rat \<Rightarrow> bool" where
  "is_double q \<longleftrightarrow> nearest_double q = q"

text \<open>The product \<open>a * b\<close> of two numbers.\<close>

definition js_times :: "rat \<Rightarrow> rat \<Rightarrow> rat" where
  "js_times a b = nearest_double (a * b)"

text \<open>
  \<open>Number.prototype.toString\<close> on an integer-valued number \<open>x\<close>.  The digits are those
  of the least \<open>k\<close> for which there are \<open>s\<close> and \<open>n\<close> with \<open>10\<^sup>k\<^sup>-\<^sup>1 \<le> s < 10\<^sup>k\<close> such
  that \<open>s * 10\<^sup>n\<^sup>-\<^sup>k\<close> is a decimal of the number \<open>x\<close>; among several such \<open>s\<close> the one
  nearest to \<open>x\<close> is taken, and the even one of two that are equally near.  Up to
  \<open>2\<^sup>5\<^sup>3\<close> every integer is a number and these digits are its decimal digits.  With
  \<open>n \<le> 21\<close> the digits are followed by \<open>n - k\<close> zeros; beyond, the exponent notation
  is used.  (An integer beyond \<open>2\<^sup>5\<^sup>3\<close> that is no double is no number, and has no
  digits; the model prints it in decimal.)
\<close>

definition toString_candidates :: "nat \<Rightarrow> nat \<Rightarrow> (nat \<times> nat) list" where
  "toString_candidates x k =
     concat (map (\<lambda>n. concat (map (\<lambda>s.
         if 10 ^ (k - 1) \<le> s \<and> s < 10 ^ k \<and>
            nearest_double (of_nat (s * 10 ^ (n - k))) = of_nat x
         then [(s, n)] else [])
       [x div 10 ^ (n - k), x div 10 ^ (n - k) + 1]))
     [length (nat_to_string x), length (nat_to_string x) + 1])"

definition shortest_digits :: "nat \<Rightarrow> (nat \<times> nat) option" where
  "shortest_digits x =
     (case filter (\<lambda>k. toString_candidates x k \<noteq> []) [1..<18] of
        [] \<Rightarrow> None
      | k # _ \<Rightarrow> Some (arg_min_list
          (\<lambda>(s, n). 2 * nat \<bar>int (s * 10 ^ (n - k)) - int x\<bar> + s mod 2)
          (toString_candidates x k)))"

definition Number_toString_nat :: "nat \<Rightarrow> string" where
  "Number_toString_nat x =
     (if x \<le> 9007199254740992 then nat_to_string x
      else case shortest_digits x of
             None \<Rightarrow> nat_to_string x
           | Some (s, n) \<Rightarrow>
               let d = nat_to_string s
               in if n \<le> 21 then d @ replicate (n - length d) CHR ''0''
                  else hd d # (if 1 < length d then CHR ''.'' # tl d else [])
                       @ ''e+'' @ nat_to_string (n - 1))"

definition Number_toString :: "int \<Rightarrow> string" where
  "Number_toString i =
     (if i < 0 then CHR ''-'' # Number_toString_nat (nat (- i)) else Number_toString_nat (nat i))"

text \<open>
  String conversion, as done by a template literal \<open>`${v}`\<close> and by a computed
  property access \<open>obj[v]\<close>.
\<close>

fun to_string :: "js_value \<Rightarrow> string" where
  "to_string (JStr s) = s"
| "to_string (JNum n) = Number_toString n"
| "to_string (JBool b) = (if b then ''true'' else ''false'')"
| "to_string JNull = ''null''"
| "to_string JUndefined = ''undefined''"
| "to_string (JNative k) =
     (if k = ''__proto__'' then ''[object Object]''
      else ''function '' @ (if k = ''constructor'' then ''Object'' else k) @ ''() { [native code] }'')"

text \<open>Property names that an object literal inherits from \<open>Object.prototype\<close>.\<close>

definition object_prototype_keys :: "string list" where
  "object_prototype_keys =
     [''constructor'', ''__defineGetter__'', ''__defineSetter__'', ''hasOwnProperty'',
      ''__lookupGetter__'', ''__lookupSetter__'', ''isPrototypeOf'', ''propertyIsEnumerable'',
      ''toString'', ''valueOf'', ''__proto__'', ''toLocaleString'']"

text \<open>\<open>obj[key]\<close> on a plain object: own property first, then the prototype.\<close>

definition js_get :: "js_object \<Rightarrow> string \<Rightarrow> js_value" where
  "js_get obj k =
     (case map_of obj k of
        Some v \<Rightarrow> v
      | None \<Rightarrow> if k \<in> set object_prototype_keys then JNative k else JUndefined)"

text \<open>\<open>a || b\<close>.\<close>

definition js_or :: "js_value \<Rightarrow> js_value \<Rightarrow> js_value" where
  "js_or a b = (if truthy a then a else b)"

section \<open>Payment status (types/payment.types.ts, config/constants.ts)\<close>

datatype PaymentStatus =
  PENDING | SUCCESS | FAILED | CANCELLED | TIMEOUT | REFUNDED | PARTIAL_REFUND

text \<open>The enum is a string enum; these are its runtime values.\<close>

fun status_value :: "PaymentStatus \<Rightarrow> string" where
  "status_value PENDING = ''pending''"
| "status_value SUCCESS = ''success''"
| "status_value FAILED = ''failed''"
| "status_value CANCELLED = ''cancelled''"
| "status_value TIMEOUT = ''timeout''"
| "status_value REFUNDED = ''refunded''"
| "status_value PARTIAL_REFUND = ''partial_refund''"

definition STATUS_MAPPING :: "js_object" where
  "STATUS_MAPPING =
     [(''0'', JStr ''success''),
      (''1'', JStr ''success''),
      (''2'', JStr ''success''),
      (''3'', JStr ''failed''),
      (''4'', JStr ''pending''),
      (''5'', JStr ''failed''),
      (''6'', JStr ''cancelled''),
      (''DEPOSITED'', JStr ''success''),
      (''REVERSED'', JStr ''success''),
      (''DECLINED'', JStr ''failed''),
      (''CANCELLED'', JStr ''cancelled''),
      (''PENDING'', JStr ''pending'')]"

text \<open>CallbackHandler.mapStatus: \<open>STATUS_MAPPING[satimStatus] || PaymentStatus.FAILED\<close>.\<close>

definition mapStatus :: "js_value \<Rightarrow> js_value" where
  "mapStatus satimStatus =
     (let mapped = js_get STATUS_MAPPING (to_string satimStatus)
      in js_or mapped (JStr (status_value FAILED)))"

text \<open>
  PaymentHandler.mapOrderStatusToPaymentStatus.  The argument is \<open>number | undefined\<close>;
  \<open>None\<close> is \<open>undefined\<close>, \<open>NaN\<close> is the one falsy number other than zero, and a
  finite number is its exact rational value.  The guard
  \<open>!orderStatus && orderStatus !== 0\<close> holds of \<open>undefined\<close> and of \<open>NaN\<close>; every other
  number goes through the \<open>switch\<close>, whose cases are compared with \<open>===\<close>.
\<close>

datatype js_number = Fin rat | NaN | PosInfinity | NegInfinity

fun mapOrderStatusToPaymentStatus :: "js_number option \<Rightarrow> PaymentStatus" where
  "mapOrderStatusToPaymentStatus None = PENDING"
| "mapOrderStatusToPaymentStatus (Some NaN) = PENDING"
| "mapOrderStatusToPaymentStatus (Some PosInfinity) = PENDING"
| "mapOrderStatusToPaymentStatus (Some NegInfinity) = PENDING"
| "mapOrderStatusToPaymentStatus (Some (Fin q)) =
     (if q = 1 \<or> q = 2 \<or> q = 11 then SUCCESS
      else if q = 4 then REFUNDED
      else if q = 6 \<or> q = - 1 then FAILED
      else if q = 3 then CANCELLED
      else PENDING)"

section \<open>Errors (utils/errors.ts)\<close>

text \<open>
  The structured \<open>details\<close> of an error: \<open>None\<close> when the constructor got none,
  otherwise the fields of the details object.
\<close>

datatype detail_value = DValue js_value | DKeys "string list"

type_synonym details = "(string \<times> detail_value) list option"

record js_error =
  name :: string
  message :: string
  code :: js_value
  statusCode :: js_value
  details :: details

text \<open>A thrown value: an instance of \<open>Error\<close>, or anything else.\<close>

datatype thrown = Err js_error | NonError js_value

definition SATIM_ERROR_CODES_DUPLICATE_ORDER :: string where "SATIM_ERROR_CODES_DUPLICATE_ORDER = ''1''"
definition SATIM_ERROR_CODES_UNKNOWN_CURRENCY :: string where "SATIM_ERROR_CODES_UNKNOWN_CURRENCY = ''3''"
definition SATIM_ERROR_CODES_INVALID_PARAMETER :: string where "SATIM_ERROR_CODES_INVALID_PARAMETER = ''5''"
definition SATIM_ERROR_CODES_SYSTEM_ERROR :: string where "SATIM_ERROR_CODES_SYSTEM_ERROR = ''7''"
definition SATIM_ERROR_CODES_INVALID_PAYMENTWAY :: string where "SATIM_ERROR_CODES_INVALID_PAYMENTWAY = ''14''"
definition SATIM_ERROR_CODES_NETWORK_ERROR :: string where "SATIM_ERROR_CODES_NETWORK_ERROR = ''NETWORK_ERROR''"
definition SATIM_ERROR_CODES_TIMEOUT :: string where "SATIM_ERROR_CODES_TIMEOUT = ''TIMEOUT''"

text \<open>\<open>new Error(message)\<close>.\<close>

definition Error :: "string \<Rightarrow> js_error" where
  "Error m = \<lparr>name = ''Error'', message = m, code = JUndefined, statusCode = JUndefined,
     details = None\<rparr>"

text \<open>\<open>new TypeError(message)\<close>, as thrown by the language itself.\<close>

definition TypeError :: "string \<Rightarrow> js_error" where
  "TypeError m = (Error m)\<lparr>name := ''TypeError''\<rparr>"

definition SatimError :: "string \<Rightarrow> js_value \<Rightarrow> js_value \<Rightarrow> details \<Rightarrow> js_error" where
  "SatimError m c sc d = \<lparr>name = ''SatimError'', message = m, code = c, statusCode = sc,
     details = d\<rparr>"

definition ConfigurationError :: "string \<Rightarrow> details \<Rightarrow> js_error" where
  "ConfigurationError m d =
     (SatimError m (JStr ''CONFIGURATION_ERROR'') JUndefined d)\<lparr>name := ''ConfigurationError''\<rparr>"


definition SignatureError :: "string \<Rightarrow> details \<Rightarrow> js_error" where
  "SignatureError m d =
     (SatimError m (JStr SATIM_ERROR_CODES_INVALID_PARAMETER) (JNum 401) d)
       \<lparr>name := ''SignatureError''\<rparr>"



definition NetworkError :: "string \<Rightarrow> details \<Rightarrow> js_error" where
  "NetworkError m d =
     (SatimError m (JStr SATIM_ERROR_CODES_NETWORK_ERROR) (JNum 503) d)\<lparr>name := ''NetworkError''\<rparr>"

definition TimeoutError :: "string \<Rightarrow> details \<Rightarrow> js_error" where
  "TimeoutError m d =
     (SatimError m (JStr SATIM_ERROR_CODES_TIMEOUT) (JNum 408) d)\<lparr>name := ''TimeoutError''\<rparr>"

definition ValidationError :: "string \<Rightarrow> details \<Rightarrow> js_error" where
  "ValidationError m d =
     (SatimError m (JStr ''VALIDATION_ERROR'') (JNum 400) d)\<lparr>name := ''ValidationError''\<rparr>"


text \<open>
  parseSatimError; \<open>None\<close> is a response that is \<open>null\<close> or \<open>undefined\<close>, for which
  every \<open>response?.field\<close> is \<open>undefined\<close>.
\<close>

definition opt_get :: "js_object option \<Rightarrow> string \<Rightarrow> js_value" where
  "opt_get obj k = (case obj of None \<Rightarrow> JUndefined | Some ob \<Rightarrow> js_get ob k)"



section \<open>Signature engine (security/SignatureValidator.ts)\<close>

text \<open>
  \<open>crypto.createHmac('sha256', key).update(data).digest()\<close> belongs to the platform
  and is a parameter \<open>hmac\<close> of the model; a SHA-256 digest is 256 bits.
\<close>

type_synonym hmac_sha256 = "string \<Rightarrow> string \<Rightarrow> 256 word"

definition hex_digit :: "nat \<Rightarrow> char" where
  "hex_digit n = ''0123456789abcdef'' ! n"

text \<open>\<open>digest('hex')\<close>: the 64 nibbles, most significant first, in lower case.\<close>

definition digest_hex :: "256 word \<Rightarrow> string" where
  "digest_hex w = map (\<lambda>i. hex_digit (unat (drop_bit (4 * i) w AND 15))) (rev [0..<64])"

text \<open>\<open>toUpperCase\<close>, on the ASCII letters (it is applied to a hex digest only).\<close>

definition toUpperCase_char :: "char \<Rightarrow> char" where
  "toUpperCase_char c =
     (case map_of (zip ''abcdefghijklmnopqrstuvwxyz'' ''ABCDEFGHIJKLMNOPQRSTUVWXYZ'') c of
        Some u \<Rightarrow> u
      | None \<Rightarrow> c)"

definition toUpperCase :: "string \<Rightarrow> string" where
  "toUpperCase s = map toUpperCase_char s"

text \<open>\<open>Object.keys\<close>, up to the order, and \<open>Array.prototype.join\<close>.\<close>

definition object_keys :: "js_object \<Rightarrow> string list" where
  "object_keys obj = map fst obj"

fun join :: "string \<Rightarrow> string list \<Rightarrow> string" where
  "join sep [] = []"
| "join sep [x] = x"
| "join sep (x # y # ys) = x @ sep @ join sep (y # ys)"

definition generateSignature :: "hmac_sha256 \<Rightarrow> string \<Rightarrow> js_object \<Rightarrow> string" where
  "generateSignature hmac secretKey payload =
     (let sortedKeys = sort (object_keys payload);
          dataString = join ''&''
            (map (\<lambda>key. key @ ''='' @ to_string (js_get payload key)) sortedKeys)
      in toUpperCase (digest_hex (hmac secretKey dataString)))"

text \<open>\<open>Buffer.from(s)\<close>: the UTF-8 encoding of the string.\<close>

definition utf8_char :: "char \<Rightarrow> nat list" where
  "utf8_char c =
     (let n = (of_char c :: nat)
      in if n < 128 then [n] else [192 + n div 64, 128 + n mod 64])"

definition Buffer_from :: "string \<Rightarrow> nat list" where
  "Buffer_from s = concat (map utf8_char s)"

datatype range_error = RangeError

text \<open>\<open>crypto.timingSafeEqual\<close> throws when the byte lengths differ.\<close>

definition timingSafeEqual :: "nat list \<Rightarrow> nat list \<Rightarrow> range_error + bool" where
  "timingSafeEqual x y = (if length x \<noteq> length y then Inl RangeError else Inr (x = y))"

text \<open>secureCompare: the exception of the comparison is caught and gives \<open>false\<close>.\<close>

definition secureCompare :: "string \<Rightarrow> string \<Rightarrow> bool" where
  "secureCompare a b =
     (if length a \<noteq> length b then False
      else case timingSafeEqual (Buffer_from a) (Buffer_from b) of
             Inl _ \<Rightarrow> False
           | Inr r \<Rightarrow> r)"

definition verifySignature :: "hmac_sha256 \<Rightarrow> string \<Rightarrow> js_object \<Rightarrow> string \<Rightarrow> bool" where
  "verifySignature hmac secretKey payload receivedSignature =
     (let expectedSignature = generateSignature hmac secretKey payload
      in secureCompare expectedSignature receivedSignature)"

text \<open>\<open>const { signature: _, ...payload } = callbackData\<close>.\<close>

definition without_signature :: "js_object \<Rightarrow> js_object" where
  "without_signature callbackData = filter (\<lambda>(k, v). k \<noteq> ''signature'') callbackData"

text \<open>
  verifyCallback.  The signature is typed \<open>string\<close>, but the callback handler passes
  whatever truthy value the request carried.  A truthy value that is no string (a number,
  \<open>true\<close>, a built-in) has no \<open>length\<close> equal to the 64 of the expected signature, so
  the comparison gives \<open>false\<close> for it.
\<close>

definition verifyCallback :: "hmac_sha256 \<Rightarrow> string \<Rightarrow> js_object \<Rightarrow> js_value \<Rightarrow> thrown + unit" where
  "verifyCallback hmac secretKey callbackData signature =
     (if \<not> truthy signature then
        Inl (Err (SignatureError ''Missing signature in callback'' None))
      else
        let payload = without_signature callbackData;
            isValid = (case signature of
                         JStr s \<Rightarrow> verifySignature hmac secretKey payload s
                       | _ \<Rightarrow> False)
        in if \<not> isValid then
             Inl (Err (SignatureError ''Invalid signature''
               (Some [(''received'', DValue signature), (''payload'', DKeys (object_keys payload))])))
           else Inr ())"





section \<open>Configuration (config/Config.ts)\<close>


section \<open>Gateway client (api/SatimAPI.ts)\<close>

definition MIN_AMOUNT :: int where
  "MIN_AMOUNT = 5000"

definition API_ENDPOINTS_REGISTER_PAYMENT :: string where
  "API_ENDPOINTS_REGISTER_PAYMENT = ''/register.do''"



definition ERROR_MESSAGES :: js_object where
  "ERROR_MESSAGES =
     [(''0'', JStr ''No system error.''),
      (''1'', JStr ''Order with given order number has already been processed or the childId is incorrect. Order with this number was registered but not paid. Submerchant is blocked or deleted.''),
      (''3'', JStr ''Unknown currency.''),
      (''4'', JStr ''Order number is not specified. Merchant user name is not specified. Amount is not specified. Return URL cannot be empty. Password cannot be empty.''),
      (''5'', JStr ''Incorrect value of a request parameter. Incorrect value in the Language parameter. Access is denied. Merchant must change the password. Invalid jsonParams[].''),
      (''7'', JStr ''System error.''),
      (''14'', JStr ''Paymentway is invalid.'')]"



text \<open>The remainder \<open>a % b\<close> of JavaScript takes the sign of \<open>a\<close>.\<close>

definition js_rem :: "int \<Rightarrow> int \<Rightarrow> int" where
  "js_rem a b = (if a < 0 then - ((- a) mod \<bar>b\<bar>) else a mod \<bar>b\<bar>)"

record SatimVerifyPaymentRequest =
  userName :: string
  password :: string
  mdOrder :: string
  language :: string

record SatimRefundRequest =
  userName :: string
  password :: string
  orderId :: string
  amount :: int

record SatimRegisterPaymentRequest =
  userName :: string
  password :: string
  orderNumber :: string
  amount :: int
  currency :: string
  returnUrl :: string
  failUrl :: "string option"
  language :: string
  jsonParams :: js_object

text \<open>A form field is a text, or the JSON serialisation of an object.\<close>

datatype form_value = FText string | FJson js_object

type_synonym form = "(string \<times> form_value) list"

text \<open>
  What the HTTP client gives back: a response (status and data), or a rejection.  A
  rejection is an axios error (timed out, answered with an error status, sent without
  an answer, or none of these) or some other value that the client has thrown: an
  \<open>Error\<close>, of which the message is kept, or a value that is no \<open>Error\<close>.  The client is
  a library; what it throws is no instance of an error class of this module.
\<close>

datatype rejection =
    ECONNABORTED
  | WithResponse nat "js_object option"
  | NoResponse
  | OtherAxiosError string
  | ForeignError string
  | ForeignValue

type_synonym http_post = "string \<Rightarrow> form \<Rightarrow> rejection + nat \<times> js_object"


text \<open>
  What the \<open>catch\<close> block of a gateway call receives: an error that the \<open>try\<close> block
  itself has thrown, or a rejection of the HTTP client.
\<close>

datatype caught = Thrown js_error | Rejected rejection

definition instanceof_SatimError :: "js_error \<Rightarrow> bool" where
  "instanceof_SatimError e \<longleftrightarrow>
     name e \<in> set [''SatimError'', ''ConfigurationError'', ''APIError'', ''SignatureError'',
       ''PaymentNotFoundError'', ''PaymentExpiredError'', ''NetworkError'', ''TimeoutError'',
       ''ValidationError'']"

definition operation_details :: "string \<Rightarrow> details" where
  "operation_details operation = Some [(''operation'', DValue (JStr operation))]"

fun handleError :: "caught \<Rightarrow> string \<Rightarrow> js_error" where
  "handleError (Rejected ECONNABORTED) operation =
     TimeoutError ''Request timeout'' (operation_details operation)"
| "handleError (Rejected (WithResponse st data)) operation =
     (let errorCode = js_or (opt_get data ''errorCode'')
            (js_or (opt_get data ''ErrorCode'') (JStr SATIM_ERROR_CODES_SYSTEM_ERROR));
          errorMessage = js_or (opt_get data ''errorMessage'')
            (js_or (opt_get data ''ErrorMessage'') (JStr ''Unknown server error''))
      in SatimError (to_string errorMessage) errorCode JUndefined None)"
| "handleError (Rejected NoResponse) operation =
     NetworkError ''No response from SATIM server'' (operation_details operation)"
| "handleError (Rejected (OtherAxiosError m)) operation =
     SatimError m (JStr SATIM_ERROR_CODES_SYSTEM_ERROR) JUndefined None"
| "handleError (Rejected (ForeignError m)) operation =
     SatimError m (JStr SATIM_ERROR_CODES_SYSTEM_ERROR) JUndefined None"
| "handleError (Rejected ForeignValue) operation =
     SatimError ''Unknown error'' (JStr SATIM_ERROR_CODES_SYSTEM_ERROR) JUndefined None"
| "handleError (Thrown e) operation =
     (if instanceof_SatimError e then e
      else SatimError (js_error.message e) (JStr SATIM_ERROR_CODES_SYSTEM_ERROR) JUndefined None)"

subsection \<open>registerPayment\<close>

definition register_form :: "SatimRegisterPaymentRequest \<Rightarrow> form" where
  "register_form request =
     [(''userName'', FText (SatimRegisterPaymentRequest.userName request)),
      (''password'', FText (SatimRegisterPaymentRequest.password request)),
      (''orderNumber'', FText (orderNumber request)),
      (''amount'', FText (Number_toString (SatimRegisterPaymentRequest.amount request))),
      (''currency'', FText (currency request)),
      (''returnUrl'', FText (returnUrl request))]
     @ (case failUrl request of
          None \<Rightarrow> []
        | Some u \<Rightarrow> if u \<noteq> [] then [(''failUrl'', FText u)] else [])
     @ [(''language'', FText (SatimRegisterPaymentRequest.language request)),
        (''jsonParams'', FJson (jsonParams request))]"

text \<open>The checks on the response of \<open>register.do\<close>.\<close>

definition register_response :: "js_object \<Rightarrow> caught + js_object" where
  "register_response data =
     (if to_string (js_get data ''errorCode'') \<noteq> ''0'' then
        let errorMessage = js_or (js_get ERROR_MESSAGES (to_string (js_get data ''errorCode'')))
              (js_or (js_get data ''errorMessage'') (JStr ''Unknown error''))
        in Inl (Thrown (SatimError
             (''Payment registration failed: '' @ to_string errorMessage)
             (js_get data ''errorCode'') JUndefined None))
      else if \<not> truthy (js_get data ''orderId'') \<or> \<not> truthy (js_get data ''formUrl'') then
        Inl (Thrown (SatimError
          ''Payment registration failed: Missing orderId or formUrl in response''
          (js_get data ''errorCode'') JUndefined None))
      else Inr data)"

text \<open>The body of the \<open>try\<close> block of registerPayment, with the requests it has sent.\<close>

definition registerPayment_try :: "http_post \<Rightarrow> SatimRegisterPaymentRequest
    \<Rightarrow> (caught + js_object) \<times> (string \<times> form) list" where
  "registerPayment_try post request =
     (if SatimRegisterPaymentRequest.amount request < MIN_AMOUNT then
        (Inl (Thrown (SatimError
           (''Amount must be at least '' @ Number_toString MIN_AMOUNT @ '' centimes (50 DA)'')
           (JStr SATIM_ERROR_CODES_INVALID_PARAMETER) JUndefined None)), [])
      else if js_rem (SatimRegisterPaymentRequest.amount request) 100 \<noteq> 0 then
        (Inl (Thrown (SatimError ''Amount must be a multiple of 100 centimes''
           (JStr SATIM_ERROR_CODES_INVALID_PARAMETER) JUndefined None)), [])
      else
        let params = register_form request;
            sent = [(API_ENDPOINTS_REGISTER_PAYMENT, params)]
        in case post API_ENDPOINTS_REGISTER_PAYMENT params of
             Inl r \<Rightarrow> (Inl (Rejected r), sent)
           | Inr (st, data) \<Rightarrow> (register_response data, sent))"

definition registerPayment :: "http_post \<Rightarrow> SatimRegisterPaymentRequest
    \<Rightarrow> (js_error + js_object) \<times> (string \<times> form) list" where
  "registerPayment post request =
     (case registerPayment_try post request of
        (Inl error, sent) \<Rightarrow> (Inl (handleError error ''registerPayment''), sent)
      | (Inr data, sent) \<Rightarrow> (Inr data, sent))"

subsection \<open>verifyPayment\<close>





subsection \<open>refundPayment\<close>





section \<open>Payment orchestrator (handlers/PaymentHandler.ts, utils/helpers.ts)\<close>

text \<open>\<open>s.slice(-n)\<close>, \<open>s.padStart(n, c)\<close>, \<open>s.substring(0, n)\<close> and \<open>s.substring(a, b)\<close>.\<close>

definition slice_last :: "nat \<Rightarrow> string \<Rightarrow> string" where
  "slice_last n s = drop (length s - n) s"

definition padStart :: "nat \<Rightarrow> char \<Rightarrow> string \<Rightarrow> string" where
  "padStart n c s = replicate (n - length s) c @ s"

definition substring0 :: "nat \<Rightarrow> string \<Rightarrow> string" where
  "substring0 n s = take n s"


text \<open>
  generateOrderId.  \<open>now\<close> is the value of \<open>Date.now()\<close>, the milliseconds since the
  epoch, and \<open>rand\<close> the value of \<open>Math.random()\<close>, a number in \<open>[0, 1)\<close>.  The product
  \<open>Math.random() * 1000\<close> is a product of numbers; \<open>Math.floor\<close> is exact.
\<close>

definition generateOrderId :: "string \<Rightarrow> nat \<Rightarrow> rat \<Rightarrow> string" where
  "generateOrderId prefix now rand =
     (let timestamp = slice_last 4 (Number_toString_nat now);
          random = padStart 3 CHR ''0'' (Number_toString_nat (nat \<lfloor>js_times rand 1000\<rfloor>))
      in substring0 3 prefix @ timestamp @ random)"

definition CURRENCY_DZD :: string where
  "CURRENCY_DZD = ''012''"


text \<open>\<open>a || b\<close> on an optional string and a string.\<close>

definition str_or :: "string option \<Rightarrow> string \<Rightarrow> string" where
  "str_or a b = (case a of None \<Rightarrow> b | Some s \<Rightarrow> if s \<noteq> [] then s else b)"

record PaymentOrder =
  orderId :: "string option"
  amount :: "int option"
  currency :: "string option"
  description :: "string option"
  returnUrl :: "string option"

record ProcessedConfig =
  username :: string
  password :: string
  terminalId :: string
  returnUrl :: string
  failUrl :: string

record PaymentResponse =
  success :: bool
  paymentId :: js_value
  paymentUrl :: js_value
  orderId :: string
  amount :: int
  currency :: string
  status :: PaymentStatus
  message :: string

text \<open>The request that createPayment builds for \<open>register.do\<close>.\<close>

definition register_request :: "ProcessedConfig \<Rightarrow> PaymentOrder \<Rightarrow> string \<Rightarrow> int \<Rightarrow> string
    \<Rightarrow> SatimRegisterPaymentRequest" where
  "register_request config order orderNumber0 amount0 currency0 =
     \<lparr>SatimRegisterPaymentRequest.userName = username config,
      password = ProcessedConfig.password config,
      orderNumber = orderNumber0,
      amount = amount0,
      currency = currency0,
      returnUrl = str_or (PaymentOrder.returnUrl order) (ProcessedConfig.returnUrl config),
      failUrl = Some (str_or (PaymentOrder.returnUrl order) (ProcessedConfig.failUrl config)),
      language = ''fr'',
      jsonParams =
        [(''force_terminal_id'', JStr (terminalId config)),
         (''udf1'', JStr (str_or (map_option (substring0 20) (description order))
            orderNumber0))]\<rparr>"

text \<open>
  createPayment, over the gateway client's registerPayment; it yields its result and
  the requests the gateway client has sent.  \<open>now\<close> and \<open>rand\<close> are what \<open>Date.now()\<close>
  and \<open>Math.random()\<close> give when an order id is generated.
\<close>

definition createPayment :: "http_post \<Rightarrow> ProcessedConfig \<Rightarrow> nat \<Rightarrow> rat \<Rightarrow> PaymentOrder
    \<Rightarrow> (js_error + PaymentResponse) \<times> (string \<times> form) list" where
  "createPayment post config now rand order =
     (let orderNumber0 = str_or (PaymentOrder.orderId order) (generateOrderId ''ORD'' now rand)
      in case PaymentOrder.amount order of
           None \<Rightarrow> (Inl (Error ''Amount is required''), [])
         | Some amount0 \<Rightarrow>
             if amount0 = 0 then (Inl (Error ''Amount is required''), [])
             else
               let currency0 = str_or (PaymentOrder.currency order) CURRENCY_DZD;
                   currency1 = (if currency0 = ''DZD'' then CURRENCY_DZD else currency0);
                   request = register_request config order orderNumber0 amount0 currency1
               in case registerPayment post request of
                    (Inl e, sent) \<Rightarrow> (Inl e, sent)
                  | (Inr response, sent) \<Rightarrow>
                      (Inr \<lparr>PaymentResponse.success = True,
                            paymentId = js_get response ''orderId'',
                            paymentUrl = js_get response ''formUrl'',
                            orderId = orderNumber0,
                            amount = amount0,
                            currency = currency1,
                            status = PENDING,
                            message = ''Payment registered successfully''\<rparr>, sent))"

subsection \<open>verifyPayment\<close>

text \<open>
  The payment date is built from two substrings of the expiration; the model keeps
  the substrings.
\<close>

record PaymentVerification =
  success :: bool
  paymentId :: string
  orderId :: js_value
  status :: PaymentStatus
  amount :: js_value
  currency :: js_value
  transactionId :: js_value
  authorizationCode :: js_value
  cardMask :: js_value
  paymentDate :: "(string \<times> string) option"
  message :: js_value
  rawResponse :: js_object







subsection \<open>refundPayment\<close>

record RefundResponse =
  success :: bool
  refundId :: string
  paymentId :: string
  amount :: int
  status :: PaymentStatus
  message :: js_value



subsection \<open>waitForPayment\<close>

text \<open>
  One call of verifyPayment during a wait: what it yields, the milliseconds it takes,
  and the milliseconds by which the timer of the following sleep fires late.
\<close>

record poll =
  outcome :: "js_error + PaymentVerification"
  call_ms :: nat
  timer_late_ms :: nat

text \<open>
  The loop of waitForPayment; \<open>elapsed\<close> is \<open>Date.now() - startTime\<close> and \<open>i\<close> counts
  the calls made so far.  The value \<open>None\<close> stands for a loop that never ends.
\<close>

partial_function (option) poll_loop ::
    "(nat \<Rightarrow> poll) \<Rightarrow> int \<Rightarrow> nat \<Rightarrow> nat \<Rightarrow> nat \<Rightarrow> (js_error + PaymentVerification) option" where
  "poll_loop verifyPayment timeoutMs intervalMs elapsed i =
     (if int elapsed < timeoutMs then
        (case outcome (verifyPayment i) of
           Inl e \<Rightarrow> Some (Inl e)
         | Inr verification \<Rightarrow>
             if PaymentVerification.status verification \<noteq> PENDING then Some (Inr verification)
             else poll_loop verifyPayment timeoutMs intervalMs
                    (elapsed + call_ms (verifyPayment i) + intervalMs
                       + timer_late_ms (verifyPayment i))
                    (Suc i))
      else Some (Inl (Error ''Payment verification timeout'')))"

declare poll_loop.simps [code]

definition waitForPayment ::
    "(string \<Rightarrow> nat \<Rightarrow> poll) \<Rightarrow> string \<Rightarrow> int \<Rightarrow> nat \<Rightarrow> (js_error + PaymentVerification) option" where
  "waitForPayment verifyPayment payment_id timeoutMs intervalMs =
     poll_loop (verifyPayment payment_id) timeoutMs intervalMs 0 0"

text \<open>The time on the clock of the wait when the \<open>n\<close>-th call is about to be made.\<close>

fun elapsed_at :: "(nat \<Rightarrow> poll) \<Rightarrow> nat \<Rightarrow> nat \<Rightarrow> nat" where
  "elapsed_at verifyPayment intervalMs 0 = 0"
| "elapsed_at verifyPayment intervalMs (Suc n) =
     elapsed_at verifyPayment intervalMs n + call_ms (verifyPayment n) + intervalMs
       + timer_late_ms (verifyPayment n)"

text \<open>A call that yields a verification whose status is PENDING.\<close>

definition observes_pending :: "poll \<Rightarrow> bool" where
  "observes_pending p =
     (case outcome p of Inl e \<Rightarrow> False | Inr v \<Rightarrow> PaymentVerification.status v = PENDING)"

section \<open>Callback processor (handlers/CallbackHandler.ts)\<close>

text \<open>
  An outcome handler is a caller-supplied action on the callback data; it returns
  \<open>Some e\<close> when its promise rejects with \<open>e\<close>.  The logger is given to the processor by
  its constructor, and the response object to \<open>handle\<close> by the transport layer; a call of
  one of their methods returns (\<open>None\<close>) or throws (\<open>Some e\<close>).  The processor holds the
  secret key of its signature validator, the logger and the three optional handlers.
\<close>

type_synonym outcome_handler = "js_object \<Rightarrow> thrown option"

text \<open>
  \<open>logger.info(message, meta)\<close>, \<open>logger.warn(message, meta)\<close>,
  \<open>logger.error(message, error)\<close> and \<open>logger.logPayment(operation, paymentId, status)\<close>.
\<close>

record Logger =
  info :: "string \<Rightarrow> js_object \<Rightarrow> thrown option"
  warn :: "string \<Rightarrow> js_object \<Rightarrow> thrown option"
  error :: "string \<Rightarrow> thrown \<Rightarrow> thrown option"
  logPayment :: "string \<Rightarrow> js_value \<Rightarrow> js_value \<Rightarrow> thrown option"

record CallbackHandler =
  secretKey :: string
  logger :: Logger
  onPaymentSuccess :: "outcome_handler option"
  onPaymentFailed :: "outcome_handler option"
  onPaymentCancelled :: "outcome_handler option"

definition new_CallbackHandler :: "string \<Rightarrow> Logger \<Rightarrow> CallbackHandler" where
  "new_CallbackHandler key lg =
     \<lparr>secretKey = key, logger = lg, onPaymentSuccess = None, onPaymentFailed = None,
      onPaymentCancelled = None\<rparr>"

definition onSuccess :: "outcome_handler \<Rightarrow> CallbackHandler \<Rightarrow> CallbackHandler" where
  "onSuccess callback h = h\<lparr>onPaymentSuccess := Some callback\<rparr>"

definition onFailure :: "outcome_handler \<Rightarrow> CallbackHandler \<Rightarrow> CallbackHandler" where
  "onFailure callback h = h\<lparr>onPaymentFailed := Some callback\<rparr>"

definition onCancellation :: "outcome_handler \<Rightarrow> CallbackHandler \<Rightarrow> CallbackHandler" where
  "onCancellation callback h = h\<lparr>onPaymentCancelled := Some callback\<rparr>"

text \<open>Which handler was called, and with which data: the trace of a dispatch.\<close>

datatype handler_slot = SuccessHandler | FailureHandler | CancellationHandler

type_synonym invocation = "handler_slot \<times> js_object"

text \<open>
  The request: its parsed body (\<open>None\<close> when there is none) and the value of the
  \<open>x-satim-signature\<close> header (\<open>JUndefined\<close> when absent).
\<close>

record Request =
  body :: "js_object option"
  x_satim_signature :: js_value

record CallbackResponse =
  success :: bool
  message :: string
  paymentId :: js_value

text \<open>\<open>res.status(code).json(body)\<close>.\<close>

type_synonym Response = "nat \<Rightarrow> CallbackResponse \<Rightarrow> thrown option"

definition requiredFields :: "string list" where
  "requiredFields = [''paymentId'', ''orderId'', ''status'', ''amount'', ''currency'']"

fun validate_fields :: "js_object \<Rightarrow> string list \<Rightarrow> thrown option" where
  "validate_fields data [] = None"
| "validate_fields data (field # rest) =
     (if \<not> truthy (js_get data field)
      then Some (Err (Error (''Missing required field: '' @ field)))
      else validate_fields data rest)"

text \<open>Reading a property of \<open>undefined\<close> throws a \<open>TypeError\<close>.\<close>

definition TypeError_undefined :: "string \<Rightarrow> js_error" where
  "TypeError_undefined field =
     (Error (''Cannot read properties of undefined (reading '' @ [CHR 0x27] @ field
        @ [CHR 0x27] @ '')''))\<lparr>name := ''TypeError''\<rparr>"

definition validateCallbackData :: "js_object option \<Rightarrow> thrown option" where
  "validateCallbackData data =
     (case data of
        None \<Rightarrow> Some (Err (TypeError_undefined ''paymentId''))
      | Some d \<Rightarrow> validate_fields d requiredFields)"

text \<open>\<open>{ ...callbackData, status }\<close>.\<close>

definition with_field :: "js_object \<Rightarrow> string \<Rightarrow> js_value \<Rightarrow> js_object" where
  "with_field obj k v =
     (if k \<in> set (object_keys obj)
      then map (\<lambda>(k', v'). if k' = k then (k', v) else (k', v')) obj
      else obj @ [(k, v)])"

definition invoke :: "handler_slot \<Rightarrow> outcome_handler option \<Rightarrow> js_object
    \<Rightarrow> thrown option \<times> invocation list" where
  "invoke slot handler callbackData =
     (case handler of
        None \<Rightarrow> (None, [])
      | Some f \<Rightarrow> (f callbackData, [(slot, callbackData)]))"

definition processCallback :: "CallbackHandler \<Rightarrow> js_object \<Rightarrow> thrown option \<times> invocation list" where
  "processCallback h callbackData =
     (let status = mapStatus (js_get callbackData ''status'')
      in if status = JStr (status_value SUCCESS) then
           invoke SuccessHandler (onPaymentSuccess h) callbackData
         else if status = JStr (status_value FAILED) then
           invoke FailureHandler (onPaymentFailed h) callbackData
         else if status = JStr (status_value CANCELLED) then
           invoke CancellationHandler (onPaymentCancelled h) callbackData
         else (warn (logger h) ''Unhandled payment status'' [(''status'', status)], []))"

text \<open>
  The body of the \<open>try\<close> block of \<open>handle\<close>: the error it throws or the acknowledgement
  it has sent with status 200, and the handlers it has called.  (Without a body the
  validation has thrown already; the second case on the body only names the data.)
\<close>

definition handle_try :: "hmac_sha256 \<Rightarrow> CallbackHandler \<Rightarrow> Request \<Rightarrow> Response
    \<Rightarrow> (thrown + CallbackResponse) \<times> invocation list" where
  "handle_try hmac h req res =
     (case validateCallbackData (body req) of
        Some e \<Rightarrow> (Inl e, [])
      | None \<Rightarrow>
          (case body req of
             None \<Rightarrow> (Inl (Err (TypeError_undefined ''signature'')), [])
           | Some callbackData \<Rightarrow>
               let signature = js_or (js_get callbackData ''signature'') (x_satim_signature req)
               in if \<not> truthy signature then
                    (Inl (Err (SignatureError ''Missing signature'' None)), [])
                  else
                    let payloadWithoutSignature = without_signature callbackData
                    in case verifyCallback hmac (secretKey h) payloadWithoutSignature signature of
                         Inl e \<Rightarrow> (Inl e, [])
                       | Inr _ \<Rightarrow>
                           let status = mapStatus (js_get callbackData ''status'')
                           in case processCallback h (with_field callbackData ''status'' status) of
                                (Some e, calls) \<Rightarrow> (Inl e, calls)
                              | (None, calls) \<Rightarrow>
                                  let response =
                                    \<lparr>success = True,
                                     message = ''Callback processed successfully'',
                                     paymentId = js_get callbackData ''paymentId''\<rparr>
                                  in case logPayment (logger h) ''callback-processed''
                                         (js_get callbackData ''paymentId'') status of
                                       Some e \<Rightarrow> (Inl e, calls)
                                     | None \<Rightarrow>
                                         (case res 200 response of
                                            Some e \<Rightarrow> (Inl e, calls)
                                          | None \<Rightarrow> (Inr response, calls))))"

text \<open>
  handle.  The result is what the caller of \<open>handle\<close> observes: the exception that
  \<open>handle\<close> lets through (\<open>Inl\<close>), or the HTTP status and the acknowledgement that were
  sent (\<open>Inr\<close>); with it, the handlers called.  The first call of the logger stands
  before the \<open>try\<close> block, and the \<open>catch\<close> block calls the logger and the response
  object once more.
\<close>

definition handle :: "hmac_sha256 \<Rightarrow> CallbackHandler \<Rightarrow> Request \<Rightarrow> Response
    \<Rightarrow> (thrown + nat \<times> CallbackResponse) \<times> invocation list" where
  "handle hmac h req res =
     (case info (logger h) ''Received SATIM callback''
             [(''paymentId'', opt_get (body req) ''paymentId''),
              (''status'', opt_get (body req) ''status'')] of
        Some e \<Rightarrow> (Inl e, [])
      | None \<Rightarrow>
          (case handle_try hmac h req res of
             (Inr response, calls) \<Rightarrow> (Inr (200, response), calls)
           | (Inl err, calls) \<Rightarrow>
               (case error (logger h) ''Callback processing error'' err of
                  Some e \<Rightarrow> (Inl e, calls)
                | None \<Rightarrow>
                    let errorResponse =
                      \<lparr>success = False,
                       message = (case err of Err e \<Rightarrow> js_error.message e
                                  | NonError _ \<Rightarrow> ''Unknown error''),
                       paymentId = js_or (opt_get (body req) ''paymentId'') (JStr ''unknown'')\<rparr>
                    in case res 400 errorResponse of
                         Some e \<Rightarrow> (Inl e, calls)
                       | None \<Rightarrow> (Inr (400, errorResponse), calls))))"

section \<open>Properties of the numbers\<close>

lemma round_half_even_le:
  assumes "q < of_int n + 1 / 2" shows "round_half_even q \<le> n"
proof -
  have "\<lfloor>q\<rfloor> \<le> n" using assms by (simp add: floor_le_iff)
  then consider "\<lfloor>q\<rfloor> = n" | "\<lfloor>q\<rfloor> + 1 \<le> n" by linarith
  then show ?thesis
  proof cases
    case 1
    then have "q - of_int \<lfloor>q\<rfloor> < 1 / 2" using assms by simp
    with 1 show ?thesis by (simp add: round_half_even_def Let_def)
  next
    case 2
    then show ?thesis by (auto simp: round_half_even_def Let_def)
  qed
qed

lemma round_half_even_nonneg: "0 \<le> q \<Longrightarrow> 0 \<le> round_half_even q"
  by (auto simp: round_half_even_def Let_def)

lemma two_powi_pos: "0 < (2::rat) powi i"
  by (simp add: power_int_def)

lemma exponent_bounds:
  assumes "0 < q"
  shows "2 powi exponent q \<le> q \<and> q < 2 powi (exponent q + 1)"
proof (cases "1 \<le> q")
  case True
  define n where "n = nat \<lfloor>q\<rfloor>"
  define m where "m = floorlog 2 n"
  have n: "0 < n" using True by (simp add: n_def)
  from floorlog_bounds [OF n, of 2] have b: "2 ^ (m - 1) \<le> n" "n < 2 ^ m"
    by (simp_all add: m_def)
  have m: "0 < m" using n by (simp add: m_def floorlog_def)
  have e: "exponent q = int m - 1" using True by (simp add: exponent_def n_def m_def)
  have nq: "of_nat n \<le> q" "q < of_nat n + 1"
    using True by (simp_all add: n_def) linarith+
  have "(2::rat) powi (int m - 1) = 2 ^ (m - 1)"
    using m by (simp add: power_int_def nat_diff_distrib')
  moreover have "(2::rat) ^ (m - 1) \<le> of_nat n"
    using b(1) by (metis of_nat_le_iff of_nat_numeral of_nat_power)
  moreover have "(2::rat) powi (int m - 1 + 1) = 2 ^ m" by (simp add: power_int_def)
  moreover have "of_nat n + 1 \<le> (2::rat) ^ m"
  proof -
    have "n + 1 \<le> 2 ^ m" using b(2) by simp
    then have "(of_nat (n + 1) :: rat) \<le> of_nat (2 ^ m)" by (simp only: of_nat_le_iff)
    then show ?thesis by simp
  qed
  ultimately show ?thesis using nq unfolding e by linarith
next
  case False
  define c where "c = \<lceil>1 / q\<rceil>"
  define n where "n = nat (c - 1)"
  define m where "m = floorlog 2 n"
  have q1: "1 < 1 / q" using False assms by simp
  then have c2: "2 \<le> c" unfolding c_def by (simp add: le_ceiling_iff) 
  have n: "0 < n" using c2 by (simp add: n_def)
  from floorlog_bounds [OF n, of 2] have b: "2 ^ (m - 1) \<le> n" "n < 2 ^ m"
    by (simp_all add: m_def)
  have m: "0 < m" using n by (simp add: m_def floorlog_def)
  have e: "exponent q = - int m" using False by (simp add: exponent_def n_def m_def c_def)
  have cn: "of_int c = (of_nat n :: rat) + 1" using c2 by (simp add: n_def)
  have c: "1 / q \<le> of_int c" "of_int c - 1 < 1 / q"
    unfolding c_def by linarith+
  have up: "of_nat n + 1 \<le> (2::rat) ^ m"
  proof -
    have "n + 1 \<le> 2 ^ m" using b(2) by simp
    then have "(of_nat (n + 1) :: rat) \<le> of_nat (2 ^ m)" by (simp only: of_nat_le_iff)
    then show ?thesis by simp
  qed
  have lo: "(2::rat) ^ (m - 1) \<le> of_nat n"
    using b(1) by (metis of_nat_le_iff of_nat_numeral of_nat_power)
  have "1 / q \<le> 2 ^ m" using c(1) cn up by linarith
  then have 1: "1 / 2 ^ m \<le> q" using assms
    by (simp add: field_simps)
  have "2 ^ (m - 1) < 1 / q" using c(2) cn lo by linarith
  then have 2: "q < 1 / 2 ^ (m - 1)" using assms
    by (simp add: field_simps)
  have p1: "(2::rat) powi (- int m) = 1 / 2 ^ m"
    by (simp add: power_int_def field_simps)
  have p2: "(2::rat) powi (- int m + 1) = 1 / 2 ^ (m - 1)"
    using m by (simp add: power_int_def field_simps nat_diff_distrib' flip: power_Suc) 
  show ?thesis unfolding e p1 p2 using 1 2 by simp
qed

lemma exponent_less:
  assumes "0 < q" "q < 2 powi e" shows "exponent q < e"
proof (rule ccontr)
  assume "\<not> exponent q < e"
  then have "(2::rat) powi e \<le> 2 powi exponent q"
    by (simp add: power_int_increasing)
  with exponent_bounds [OF assms(1)] assms(2) show False by linarith
qed

lemma exponent_ge:
  assumes "0 < q" "2 powi e \<le> q" shows "e \<le> exponent q"
proof (rule ccontr)
  assume "\<not> e \<le> exponent q"
  then have "exponent q + 1 \<le> e" by simp
  then have "(2::rat) powi (exponent q + 1) \<le> 2 powi e"
    by (simp add: power_int_increasing)
  with exponent_bounds [OF assms(1)] assms(2) show False by linarith
qed

lemma ulp_pos: "0 < ulp q"
  by (simp add: ulp_def two_powi_pos)

lemma nearest_double_pos:
  "0 < q \<Longrightarrow> nearest_double q = of_int (round_half_even (q / ulp q)) * ulp q"
  by (simp add: nearest_double_def)

lemma nearest_double_nonneg:
  assumes "0 \<le> q" shows "0 \<le> nearest_double q"
proof (cases "q = 0")
  case True
  then show ?thesis by (simp add: nearest_double_def)
next
  case False
  with assms have q: "0 < q" by simp
  have "0 \<le> q / ulp q" using q ulp_pos [of q] by simp
  then have "0 \<le> round_half_even (q / ulp q)" by (rule round_half_even_nonneg)
  then show ?thesis using ulp_pos [of q] by (simp add: nearest_double_pos [OF q])
qed

text \<open>Rounding stays within the binade, its upper end included.\<close>

lemma nearest_double_le_binade:
  assumes "0 < q" shows "nearest_double q \<le> 2 powi (exponent q + 1)"
proof -
  define e where "e = exponent q"
  define d where "d = max e (- 1022) - 52"
  have u: "ulp q = 2 powi d" by (simp add: ulp_def d_def e_def)
  have q: "q < 2 powi (e + 1)" using exponent_bounds [OF assms] by (simp add: e_def)
  show ?thesis
  proof (cases "d \<le> e + 1")
    case True
    define M where "M = (2::int) ^ nat (e + 1 - d)"
    have M: "(of_int M :: rat) * 2 powi d = 2 powi (e + 1)"
    proof -
      have "(of_int M :: rat) = 2 powi (e + 1 - d)"
        using True by (simp add: M_def power_int_def)
      then show ?thesis by (simp flip: power_int_add)
    qed
    from q have "q < of_int M * 2 powi d" by (simp add: M)
    then have "q / ulp q < of_int M" using two_powi_pos [of d]
      by (simp add: u pos_divide_less_eq)
    then have "round_half_even (q / ulp q) \<le> M"
      by (intro round_half_even_le) simp
    then have "(of_int (round_half_even (q / ulp q)) :: rat) \<le> of_int M" by simp
    then have "of_int (round_half_even (q / ulp q)) * ulp q \<le> of_int M * ulp q"
      using ulp_pos [of q] by (simp only: mult_le_cancel_right_pos)
    then show ?thesis
      unfolding nearest_double_pos [OF assms] by (simp add: u M e_def)
  next
    case False
    then have "(2::rat) powi (e + 1) \<le> 2 powi (d - 1)"
      by (intro power_int_increasing) simp_all
    also have "\<dots> = 2 powi d / 2" by (simp add: power_int_diff)
    finally have "q < 2 powi d / 2" using q by simp
    then have "q / ulp q < of_int 0 + 1 / 2" using two_powi_pos [of d]
      by (simp add: u pos_divide_less_eq)
    then have "round_half_even (q / ulp q) \<le> 0" by (rule round_half_even_le)
    then have "(of_int (round_half_even (q / ulp q)) :: rat) \<le> 0" by simp
    then have "of_int (round_half_even (q / ulp q)) * ulp q \<le> 0"
      using ulp_pos [of q] by (simp add: mult_le_0_iff)
    also have "\<dots> \<le> 2 powi (exponent q + 1)"
      using two_powi_pos [of "exponent q + 1"] by simp
    finally show ?thesis unfolding nearest_double_pos [OF assms] .
  qed
qed

text \<open>The largest double below one is \<open>1 - 2\<^sup>-\<^sup>5\<^sup>3\<close>.\<close>

lemma is_double_below_1:
  assumes "is_double x" "0 \<le> x" "x < 1"
  shows "x \<le> 1 - 1 / 2 ^ 53"
proof (cases "x < 1 / 2")
  case True
  then show ?thesis by simp
next
  case False
  then have x: "0 < x" "1 / 2 \<le> x" by simp_all
  have "exponent x < 0" using x(1) assms(3) by (intro exponent_less) simp_all
  moreover have "- 1 \<le> exponent x" using x by (intro exponent_ge) (simp_all add: power_int_def)
  ultimately have e: "exponent x = - 1" by simp
  have u: "ulp x = 1 / 2 ^ 53" by (simp add: ulp_def e power_int_def field_simps)
  define k where "k = round_half_even (x / ulp x)"
  have "of_int k * ulp x = x"
    using assms(1) unfolding is_double_def nearest_double_pos [OF x(1)] k_def .
  then have eq: "x = of_int k / 2 ^ 53" by (simp add: u)
  with assms(3) have "(of_int k :: rat) < 2 ^ 53" by (simp add: field_simps)
  then have "(of_int k :: rat) < of_int (2 ^ 53)" by simp
  then have "k < 2 ^ 53" by (simp only: of_int_less_iff)
  then have "k \<le> 2 ^ 53 - 1" by simp
  then have "(of_int k :: rat) \<le> of_int (2 ^ 53 - 1)" by (simp only: of_int_le_iff)
  then show ?thesis unfolding eq by (simp add: field_simps)
qed

text \<open>
  The product of a double below one and 1000, rounded to a double, is below 1000: the
  exact product is at most \<open>1000 - 1000 / 2\<^sup>5\<^sup>3\<close>, nearer to the double
  \<open>1000 - 2\<^sup>-\<^sup>4\<^sup>3\<close> than to 1000.
\<close>

lemma random_times_1000:
  assumes "is_double x" "0 \<le> x" "x < 1"
  shows "0 \<le> js_times x 1000 \<and> js_times x 1000 < 1000"
proof -
  define y where "y = x * 1000"
  have y0: "0 \<le> y" using assms(2) by (simp add: y_def)
  have yle: "y \<le> 1000 - 1000 / 2 ^ 53"
    using is_double_below_1 [OF assms] by (simp add: y_def)
  have lo: "0 \<le> nearest_double y" using y0 by (rule nearest_double_nonneg)
  have "nearest_double y < 1000"
  proof (cases "y < 512")
    case True
    show ?thesis
    proof (cases "y = 0")
      case True
      then show ?thesis by (simp add: nearest_double_def)
    next
      case False
      with y0 have y: "0 < y" by simp
      have "exponent y < 9" using y True by (intro exponent_less) (simp_all add: power_int_def)
      then have "(2::rat) powi (exponent y + 1) \<le> 2 powi 9"
        by (intro power_int_increasing) simp_all
      with nearest_double_le_binade [OF y] have "nearest_double y \<le> 512"
        by (simp add: power_int_def)
      then show ?thesis by simp
    qed
  next
    case False
    then have y: "0 < y" "512 \<le> y" by simp_all
    have "exponent y < 10" using y(1) yle by (intro exponent_less) (simp_all add: power_int_def)
    moreover have "9 \<le> exponent y" using y by (intro exponent_ge) (simp_all add: power_int_def)
    ultimately have e: "exponent y = 9" by simp
    have u: "ulp y = 1 / 2 ^ 43" by (simp add: ulp_def e power_int_def field_simps)
    have "y / ulp y \<le> (1000 - 1000 / 2 ^ 53) * 2 ^ 43" using yle by (simp add: u)
    also have "\<dots> < of_int (1000 * 2 ^ 43 - 1) + 1 / 2" by simp
    finally have "round_half_even (y / ulp y) \<le> 1000 * 2 ^ 43 - 1"
      by (rule round_half_even_le)
    then have "(of_int (round_half_even (y / ulp y)) :: rat) \<le> of_int (1000 * 2 ^ 43 - 1)"
      by (simp only: of_int_le_iff)
    then have "nearest_double y \<le> of_int (1000 * 2 ^ 43 - 1) / 2 ^ 43"
      unfolding nearest_double_pos [OF y(1)] u by (simp add: field_simps)
    also have "\<dots> < 1000" by simp
    finally show ?thesis .
  qed
  with lo show ?thesis by (simp add: js_times_def y_def)
qed

lemma floor_random:
  assumes "is_double x" "0 \<le> x" "x < 1"
  shows "nat \<lfloor>js_times x 1000\<rfloor> < 1000"
proof -
  have "js_times x 1000 < of_int 1000" using random_times_1000 [OF assms] by simp
  then have "\<lfloor>js_times x 1000\<rfloor> < 1000" by (simp only: floor_less_iff)
  then show ?thesis by linarith
qed

lemma js_times_0998:
  "is_double (4494592428115755 / 4503599627370496) \<and>
   js_times (4494592428115755 / 4503599627370496) 1000 = 998"
  by code_simp

lemma Number_toString_nat_small:
  "x \<le> 9007199254740992 \<Longrightarrow> Number_toString_nat x = nat_to_string x"
  by (simp add: Number_toString_nat_def)

lemma Number_toString_small:
  assumes "0 \<le> i" "i \<le> 9007199254740992"
  shows "Number_toString i = nat_to_string (nat i)"
proof -
  have "nat i \<le> 9007199254740992" using assms by linarith
  then show ?thesis using assms(1) by (simp add: Number_toString_def Number_toString_nat_small)
qed

section \<open>Properties of the signature engine\<close>

lemma nibble_lt: "unat ((w::256 word) AND 15) < 16"
proof -
  have "w AND 15 \<le> 15" by (rule word_and_le1)
  then have "unat (w AND 15) \<le> unat (15::256 word)" by (simp add: word_le_nat_alt)
  then show ?thesis by simp
qed

lemma upper_hex_table:
  "map (\<lambda>n. toUpperCase_char (hex_digit n)) [0..<16] = ''0123456789ABCDEF''"
  by code_simp

lemma upper_hex:
  assumes "n < 16" shows "toUpperCase_char (hex_digit n) \<in> set ''0123456789ABCDEF''"
proof -
  have "toUpperCase_char (hex_digit n) = map (\<lambda>n. toUpperCase_char (hex_digit n)) [0..<16] ! n"
    using assms by simp
  also have "\<dots> \<in> set (map (\<lambda>n. toUpperCase_char (hex_digit n)) [0..<16])"
    using assms by (intro nth_mem) simp
  finally show ?thesis unfolding upper_hex_table .
qed

lemma length_generateSignature: "length (generateSignature hmac key p) = 64"
  by (simp add: generateSignature_def toUpperCase_def digest_hex_def Let_def)

lemma set_generateSignature: "set (generateSignature hmac key p) \<subseteq> set ''0123456789ABCDEF''"
  unfolding generateSignature_def toUpperCase_def digest_hex_def Let_def
  using upper_hex [OF nibble_lt] by (auto simp del: set_simps)

lemma generateSignature_nonempty: "generateSignature hmac key p \<noteq> []"
  using length_generateSignature [of hmac key p] by auto

lemma utf8_char_inj:
  assumes "utf8_char x @ xs = utf8_char y @ ys" shows "x = y \<and> xs = ys"
proof -
  let ?m = "of_char x :: nat" and ?n = "of_char y :: nat"
  have bx: "?m < 256" and "?n < 256" by simp_all
  consider "?m < 128" "?n < 128" | "?m < 128" "\<not> ?n < 128" | "\<not> ?m < 128" "?n < 128"
    | "\<not> ?m < 128" "\<not> ?n < 128" by blast
  then show ?thesis
  proof cases
    case 1 with assms show ?thesis by (simp add: utf8_char_def)
  next
    case 2 with assms show ?thesis by (simp add: utf8_char_def Let_def)
  next
    case 3 with assms show ?thesis by (simp add: utf8_char_def Let_def)
  next
    case 4
    with assms have "?m div 64 = ?n div 64" "?m mod 64 = ?n mod 64" "xs = ys"
      by (simp_all add: utf8_char_def Let_def)
    then have "?m = ?n" by (metis div_mult_mod_eq)
    with \<open>xs = ys\<close> show ?thesis by simp
  qed
qed

lemma Buffer_from_inj: "Buffer_from a = Buffer_from b \<Longrightarrow> a = b"
proof (induction a arbitrary: b)
  case Nil
  then show ?case by (cases b) (auto simp: Buffer_from_def utf8_char_def Let_def split: if_splits)
next
  case (Cons x a)
  show ?case
  proof (cases b)
    case Nil
    with Cons.prems show ?thesis by (auto simp: Buffer_from_def utf8_char_def Let_def split: if_splits)
  next
    case (Cons y b')
    with Cons.prems have "utf8_char x @ Buffer_from a = utf8_char y @ Buffer_from b'"
      by (simp add: Buffer_from_def)
    then have "x = y" "Buffer_from a = Buffer_from b'" using utf8_char_inj by blast+
    with Cons.IH Cons show ?thesis by simp
  qed
qed

lemma secureCompare_iff: "secureCompare a b \<longleftrightarrow> b = a"
proof (cases "a = b")
  case True
  then show ?thesis by (simp add: secureCompare_def timingSafeEqual_def)
next
  case False
  then have "Buffer_from a \<noteq> Buffer_from b" using Buffer_from_inj by blast
  with False show ?thesis by (auto simp: secureCompare_def timingSafeEqual_def)
qed

lemma verifySignature_iff:
  "verifySignature hmac key p s \<longleftrightarrow> s = generateSignature hmac key p"
  by (simp add: verifySignature_def secureCompare_iff)

lemma sort_keys_eq:
  assumes "distinct (map fst p1)" "distinct (map fst p2)" "set p1 = set p2"
  shows "sort (object_keys p1) = sort (object_keys p2)"
proof -
  have "set (map fst p1) = set (map fst p2)" using assms(3) by simp
  with assms have "mset (map fst p1) = mset (map fst p2)"
    using set_eq_iff_mset_eq_distinct by blast
  then have "mset (sort (map fst p2)) = mset (map fst p1)" by simp
  then show ?thesis unfolding object_keys_def
    by (rule properties_for_sort) simp
qed

lemma js_get_eq:
  assumes "distinct (map fst p1)" "distinct (map fst p2)" "set p1 = set p2"
  shows "js_get p1 = js_get p2"
proof -
  have "map_of p1 = map_of p2" using assms by (simp add: map_of_inject_set)
  then show ?thesis by (auto simp: js_get_def fun_eq_iff)
qed

lemma generateSignature_cong:
  assumes "distinct (map fst p1)" "distinct (map fst p2)" "set p1 = set p2"
  shows "generateSignature hmac key p1 = generateSignature hmac key p2"
  by (simp add: generateSignature_def sort_keys_eq [OF assms] js_get_eq [OF assms])

text \<open>
  Claim C2.  For every payload and every secret key, verifying the payload against the
  signature generated for it succeeds, and verifying it against any received value other
  than that signature fails.  The comparison is a total function: the length mismatch
  and the exception of the constant-time comparison are branches that yield \<open>false\<close>.
\<close>

theorem C2_verifySignature:
  "verifySignature hmac key p (generateSignature hmac key p) \<and>
   (\<forall>s. s \<noteq> generateSignature hmac key p \<longrightarrow> \<not> verifySignature hmac key p s)"
  by (simp add: verifySignature_iff)

theorem C2_verifySignature_witness:
  "verifySignature (\<lambda>k d. 0) ''test-secret-key''
     [(''orderId'', JStr ''ORDER001''), (''amount'', JStr ''5000'')]
     (generateSignature (\<lambda>k d. 0) ''test-secret-key''
        [(''orderId'', JStr ''ORDER001''), (''amount'', JStr ''5000'')]) \<and>
   ''INVALID_SIGNATURE'' \<noteq> generateSignature (\<lambda>k d. 0) ''test-secret-key''
        [(''orderId'', JStr ''ORDER001''), (''amount'', JStr ''5000'')] \<and>
   \<not> verifySignature (\<lambda>k d. 0) ''test-secret-key''
     [(''orderId'', JStr ''ORDER001''), (''amount'', JStr ''5000'')] ''INVALID_SIGNATURE''"
proof -
  let ?p = "[(''orderId'', JStr ''ORDER001''), (''amount'', JStr ''5000'')]"
  let ?g = "generateSignature (\<lambda>k d. 0) ''test-secret-key'' ?p"
  have ne: "''INVALID_SIGNATURE'' \<noteq> ?g"
  proof
    assume "''INVALID_SIGNATURE'' = ?g"
    then have "length ''INVALID_SIGNATURE'' = length ?g" by (rule arg_cong)
    then show False by (simp add: length_generateSignature)
  qed
  with C2_verifySignature [of "\<lambda>k d. 0" "''test-secret-key''" ?p] show ?thesis by blast
qed

text \<open>
  Claim C3.  Two flat payloads that hold exactly the same key-value pairs, whatever the
  order in which the keys were inserted, get the same signature under the same key.
\<close>

theorem C3_generateSignature_order_independent:
  assumes "distinct (map fst p1)" and "distinct (map fst p2)" and "set p1 = set p2"
  shows "generateSignature hmac key p1 = generateSignature hmac key p2"
  using assms by (rule generateSignature_cong)

theorem C3_generateSignature_order_independent_witness:
  "generateSignature (\<lambda>k d. word_of_nat (length k + length d)) ''test-secret-key''
     [(''orderId'', JStr ''O1''), (''amount'', JStr ''5000'')]
   = generateSignature (\<lambda>k d. word_of_nat (length k + length d)) ''test-secret-key''
     [(''amount'', JStr ''5000''), (''orderId'', JStr ''O1'')]"
  by (rule C3_generateSignature_order_independent) auto

text \<open>
  Claim C10.  For every payload and every secret key the signature is a string of
  exactly 64 characters, each of them one of \<open>0123456789ABCDEF\<close>.
\<close>

theorem C10_generateSignature_hex64:
  "length (generateSignature hmac key p) = 64 \<and>
   set (generateSignature hmac key p) \<subseteq> set ''0123456789ABCDEF''"
  using length_generateSignature set_generateSignature by blast

theorem C10_generateSignature_hex64_witness:
  "length (generateSignature (\<lambda>k d. - 1) ''test-secret-key''
      [(''terminalId'', JStr ''TEST123''), (''amount'', JStr ''5000'')]) = 64 \<and>
   set (generateSignature (\<lambda>k d. - 1) ''test-secret-key''
      [(''terminalId'', JStr ''TEST123''), (''amount'', JStr ''5000'')])
     \<subseteq> set ''0123456789ABCDEF''"
  by (rule C10_generateSignature_hex64)

section \<open>Properties of the status mappers\<close>

lemma STATUS_MAPPING_values:
  "list_all (\<lambda>(k, x). x \<in> set (map JStr [''success'', ''failed'', ''pending'', ''cancelled'']))
     STATUS_MAPPING"
  by code_simp

lemma mapStatus_own:
  assumes "map_of STATUS_MAPPING (to_string v) = Some x"
  shows "mapStatus v = x \<and>
     x \<in> set (map JStr [''success'', ''failed'', ''pending'', ''cancelled''])"
proof -
  from assms have "(to_string v, x) \<in> set STATUS_MAPPING" by (rule map_of_SomeD)
  with STATUS_MAPPING_values
  have x: "x \<in> set (map JStr [''success'', ''failed'', ''pending'', ''cancelled''])"
    unfolding list_all_iff by blast
  then have "truthy x" by auto
  with assms x show ?thesis by (simp add: mapStatus_def js_get_def js_or_def)
qed

lemma mapStatus_inherited:
  "map_of STATUS_MAPPING (to_string v) = None \<Longrightarrow> to_string v \<in> set object_prototype_keys
     \<Longrightarrow> mapStatus v = JNative (to_string v)"
  by (simp add: mapStatus_def js_get_def js_or_def)

text \<open>A status that is neither a key of the table nor a name inherited from the
  prototype is mapped to FAILED.\<close>

lemma mapStatus_unknown:
  "map_of STATUS_MAPPING (to_string v) = None \<Longrightarrow> to_string v \<notin> set object_prototype_keys
     \<Longrightarrow> mapStatus v = JStr (status_value FAILED)"
  by (simp add: mapStatus_def js_get_def js_or_def)

lemma mapStatus_range:
  "mapStatus v \<in> set (map JStr [''success'', ''failed'', ''pending'', ''cancelled'']
     @ map JNative object_prototype_keys)"
proof (cases "map_of STATUS_MAPPING (to_string v)")
  case None
  then show ?thesis
    using mapStatus_inherited [of v] mapStatus_unknown [of v]
    by (cases "to_string v \<in> set object_prototype_keys") auto
next
  case (Some x)
  then show ?thesis using mapStatus_own [of v x] by auto
qed

lemma mapStatus_of_mapped:
  "list_all (\<lambda>w. mapStatus w = JStr ''failed'')
     (map JStr [''success'', ''failed'', ''pending'', ''cancelled'']
        @ map JNative object_prototype_keys)"
  by code_simp

text \<open>Mapping an already mapped status gives FAILED, whatever the status was.\<close>

lemma mapStatus_twice: "mapStatus (mapStatus v) = JStr ''failed''"
  using mapStatus_of_mapped mapStatus_range [of v] unfolding list_all_iff by blast

text \<open>The numeric mapper on each of its cases.\<close>

lemma mapOrderStatusToPaymentStatus_cases:
  "mapOrderStatusToPaymentStatus (Some (Fin 1)) = SUCCESS"
  "mapOrderStatusToPaymentStatus (Some (Fin 2)) = SUCCESS"
  "mapOrderStatusToPaymentStatus (Some (Fin 11)) = SUCCESS"
  "mapOrderStatusToPaymentStatus (Some (Fin 4)) = REFUNDED"
  "mapOrderStatusToPaymentStatus (Some (Fin 6)) = FAILED"
  "mapOrderStatusToPaymentStatus (Some (Fin (- 1))) = FAILED"
  "mapOrderStatusToPaymentStatus (Some (Fin 3)) = CANCELLED"
  "mapOrderStatusToPaymentStatus (Some (Fin 0)) = PENDING"
  "mapOrderStatusToPaymentStatus None = PENDING"
  "mapOrderStatusToPaymentStatus (Some NaN) = PENDING"
  "mapOrderStatusToPaymentStatus (Some PosInfinity) = PENDING"
  "mapOrderStatusToPaymentStatus (Some NegInfinity) = PENDING"
  "q \<notin> {1, 2, 11, 4, 6, - 1, 3} \<Longrightarrow> mapOrderStatusToPaymentStatus (Some (Fin q)) = PENDING"
  by simp_all

text \<open>
  Claim C5.  The claim wants the callback mapper to send every string that is not a key
  of its table to FAILED.  The table is an object literal, so the lookup also finds what
  the object inherits: the status \<open>constructor\<close> is no key of the table, and it is
  mapped to the inherited built-in function, not to FAILED.
\<close>

theorem C5_mapStatus_inherited_name:
  "''constructor'' \<notin> set (object_keys STATUS_MAPPING) \<and>
   mapStatus (JStr ''constructor'') = JNative ''constructor'' \<and>
   mapStatus (JStr ''constructor'') \<noteq> JStr (status_value FAILED)"
  by code_simp

section \<open>Properties of the callback processor\<close>

lemma validate_fields_None:
  "validate_fields d fs = None \<longleftrightarrow> (\<forall>f\<in>set fs. truthy (js_get d f))"
  by (induction fs) auto

lemma validate_fields_first:
  assumes "\<forall>g\<in>set pre. truthy (js_get d g)" and "\<not> truthy (js_get d f)"
  shows "validate_fields d (pre @ f # post)
    = Some (Err (Error (''Missing required field: '' @ f)))"
  using assms by (induction pre) auto

lemma without_signature_idem: "without_signature (without_signature d) = without_signature d"
  by (simp add: without_signature_def)

lemma verifyCallback_Inr:
  "verifyCallback hmac key d s = Inr u \<longleftrightarrow>
     truthy s \<and> s = JStr (generateSignature hmac key (without_signature d))"
  by (cases s) (auto simp: verifyCallback_def Let_def verifySignature_iff)

lemma verifyCallback_mismatch:
  assumes "truthy s" and "s \<noteq> JStr (generateSignature hmac key (without_signature d))"
  shows "verifyCallback hmac key d s = Inl (Err (SignatureError ''Invalid signature''
     (Some [(''received'', DValue s), (''payload'', DKeys (object_keys (without_signature d)))])))"
  using assms by (cases s) (auto simp: verifyCallback_def Let_def verifySignature_iff)

lemma map_of_with_field:
  assumes "k \<in> set (object_keys d)"
  shows "map_of (with_field d k v) k = Some v"
proof -
  have f: "(\<lambda>(k', v'). if k' = k then (k', v) else (k', v'))
      = (\<lambda>p. if fst p = k then (k, v) else p)"
    by (auto simp: fun_eq_iff)
  have "k \<in> fst ` set d \<Longrightarrow>
      map_of (map (\<lambda>p. if fst p = k then (k, v) else p) d) k = Some v"
    by (induction d) auto
  with assms show ?thesis
    unfolding with_field_def f by (simp add: object_keys_def)
qed

lemma processCallback_mapped:
  assumes "''status'' \<in> set (object_keys d)"
  shows "processCallback h (with_field d ''status'' (mapStatus s))
    = invoke FailureHandler (onPaymentFailed h) (with_field d ''status'' (mapStatus s))"
proof -
  have "js_get (with_field d ''status'' (mapStatus s)) ''status'' = mapStatus s"
    using assms by (simp add: js_get_def map_of_with_field)
  then show ?thesis by (simp add: processCallback_def mapStatus_twice)
qed

lemma snd_invoke:
  "set (snd (invoke slot handler d)) \<subseteq> {(slot, d)}"
  by (simp add: invoke_def split: option.splits)

lemma status_key_of_valid:
  assumes "\<forall>f\<in>set requiredFields. truthy (js_get d f)"
  shows "''status'' \<in> set (object_keys d)"
proof (rule ccontr)
  assume "''status'' \<notin> set (object_keys d)"
  then have "map_of d ''status'' = None"
    by (simp add: object_keys_def map_of_eq_None_iff)
  then have "js_get d ''status'' = JUndefined"
    by (simp add: js_get_def object_prototype_keys_def)
  with assms show False by (simp add: requiredFields_def)
qed

text \<open>The \<open>try\<close> block on each of its paths.\<close>

lemma handle_try_no_body:
  "body req = None \<Longrightarrow>
     handle_try hmac h req res = (Inl (Err (TypeError_undefined ''paymentId'')), [])"
  by (simp add: handle_try_def validateCallbackData_def)

lemma handle_try_missing_field:
  assumes "body req = Some d" and "requiredFields = pre @ f # post"
    and "\<forall>g\<in>set pre. truthy (js_get d g)" and "\<not> truthy (js_get d f)"
  shows "handle_try hmac h req res
    = (Inl (Err (Error (''Missing required field: '' @ f))), [])"
  using validate_fields_first [OF assms(3,4), of post] assms(1)
  by (simp add: handle_try_def validateCallbackData_def assms(2))

lemma handle_try_missing_signature:
  assumes "body req = Some d" and "\<forall>f\<in>set requiredFields. truthy (js_get d f)"
    and "\<not> truthy (js_or (js_get d ''signature'') (x_satim_signature req))"
  shows "handle_try hmac h req res = (Inl (Err (SignatureError ''Missing signature'' None)), [])"
proof -
  have "validate_fields d requiredFields = None" using assms(2) by (simp add: validate_fields_None)
  with assms(1,3) show ?thesis
    by (simp add: handle_try_def validateCallbackData_def Let_def)
qed

lemma handle_try_invalid_signature:
  assumes "body req = Some d" and "\<forall>f\<in>set requiredFields. truthy (js_get d f)"
    and "truthy (js_or (js_get d ''signature'') (x_satim_signature req))"
    and "js_or (js_get d ''signature'') (x_satim_signature req)
      \<noteq> JStr (generateSignature hmac (secretKey h) (without_signature d))"
  shows "handle_try hmac h req res
    = (Inl (Err (SignatureError ''Invalid signature''
         (Some [(''received'', DValue (js_or (js_get d ''signature'') (x_satim_signature req))),
                (''payload'', DKeys (object_keys (without_signature d)))]))), [])"
proof -
  have v: "validate_fields d requiredFields = None"
    using assms(2) by (simp add: validate_fields_None)
  have "verifyCallback hmac (secretKey h) (without_signature d)
      (js_or (js_get d ''signature'') (x_satim_signature req))
    = Inl (Err (SignatureError ''Invalid signature''
         (Some [(''received'', DValue (js_or (js_get d ''signature'') (x_satim_signature req))),
                (''payload'', DKeys (object_keys (without_signature d)))])))"
    using verifyCallback_mismatch [of "js_or (js_get d ''signature'') (x_satim_signature req)"
        hmac "secretKey h" "without_signature d"] assms(3,4)
    by (simp add: without_signature_idem)
  with assms(1,3) v show ?thesis
    by (simp add: handle_try_def validateCallbackData_def Let_def)
qed

lemma handle_try_accepted:
  assumes "body req = Some d" and "\<forall>f\<in>set requiredFields. truthy (js_get d f)"
    and "js_or (js_get d ''signature'') (x_satim_signature req)
      = JStr (generateSignature hmac (secretKey h) (without_signature d))"
  shows "handle_try hmac h req res =
    (case invoke FailureHandler (onPaymentFailed h)
            (with_field d ''status'' (mapStatus (js_get d ''status''))) of
       (Some e, calls) \<Rightarrow> (Inl e, calls)
     | (None, calls) \<Rightarrow>
         (case logPayment (logger h) ''callback-processed'' (js_get d ''paymentId'')
                 (mapStatus (js_get d ''status'')) of
            Some e \<Rightarrow> (Inl e, calls)
          | None \<Rightarrow>
              (case res 200 \<lparr>success = True, message = ''Callback processed successfully'',
                               paymentId = js_get d ''paymentId''\<rparr> of
                 Some e \<Rightarrow> (Inl e, calls)
               | None \<Rightarrow> (Inr \<lparr>success = True, message = ''Callback processed successfully'',
                                 paymentId = js_get d ''paymentId''\<rparr>, calls))))"
proof -
  have v: "validate_fields d requiredFields = None"
    using assms(2) by (simp add: validate_fields_None)
  have t: "truthy (js_or (js_get d ''signature'') (x_satim_signature req))"
    unfolding assms(3) by (simp add: generateSignature_nonempty)
  have vc: "verifyCallback hmac (secretKey h) (without_signature d)
      (JStr (generateSignature hmac (secretKey h) (without_signature d))) = Inr ()"
    unfolding verifyCallback_Inr by (simp add: generateSignature_nonempty without_signature_idem)
  have pc: "processCallback h (with_field d ''status'' (mapStatus (js_get d ''status'')))
      = invoke FailureHandler (onPaymentFailed h)
          (with_field d ''status'' (mapStatus (js_get d ''status'')))"
    using status_key_of_valid [OF assms(2)] by (rule processCallback_mapped)
  show ?thesis
    using t unfolding handle_try_def validateCallbackData_def
    by (simp add: assms(1) v assms(3) vc pc Let_def split: prod.splits option.splits)
qed

lemma handle_try_Inr:
  assumes "fst (handle_try hmac h req res) = Inr r"
  shows "r = \<lparr>success = True, message = ''Callback processed successfully'',
               paymentId = opt_get (body req) ''paymentId''\<rparr>"
  using assms unfolding handle_try_def
  by (auto simp: Let_def opt_get_def split: option.splits if_splits sum.splits prod.splits)

text \<open>
  Whatever the status of an accepted callback is, the only handler that the processor
  can call is the failure handler: \<open>handle\<close> maps the status, and \<open>processCallback\<close>
  maps the mapped status again.
\<close>

lemma handle_calls_failure_handler_only:
  "\<forall>(slot, d) \<in> set (snd (handle_try hmac h req res)). slot = FailureHandler"
proof (cases "body req")
  case None
  then show ?thesis by (simp add: handle_try_no_body)
next
  case (Some d)
  show ?thesis
  proof (cases "validate_fields d requiredFields")
    case None
    then have "''status'' \<in> set (object_keys d)"
      by (simp add: validate_fields_None status_key_of_valid)
    then have pc: "processCallback h (with_field d ''status'' (mapStatus (js_get d ''status'')))
      = invoke FailureHandler (onPaymentFailed h)
          (with_field d ''status'' (mapStatus (js_get d ''status'')))"
      by (rule processCallback_mapped)
    have "set (snd (handle_try hmac h req res)) \<subseteq> set (snd (invoke FailureHandler
        (onPaymentFailed h) (with_field d ''status'' (mapStatus (js_get d ''status'')))))"
      using Some None
      by (auto simp: handle_try_def validateCallbackData_def Let_def pc
          split: sum.splits option.splits prod.splits)
    with snd_invoke show ?thesis by fastforce
  next
    case (Some e)
    with \<open>body req = Some d\<close> show ?thesis
      by (simp add: handle_try_def validateCallbackData_def)
  qed
qed

text \<open>
  \<open>handle\<close> when the first call of the logger and the calls of the \<open>catch\<close> block return.
\<close>

lemma handle_quiet:
  assumes "info (logger h) ''Received SATIM callback''
      [(''paymentId'', opt_get (body req) ''paymentId''),
       (''status'', opt_get (body req) ''status'')] = None"
    and "\<forall>t. error (logger h) ''Callback processing error'' t = None"
    and "\<forall>r. res 400 r = None"
  shows "handle hmac h req res =
    (case handle_try hmac h req res of
       (Inr response, calls) \<Rightarrow> (Inr (200, response), calls)
     | (Inl err, calls) \<Rightarrow>
         (Inr (400, \<lparr>success = False,
            message = (case err of Err e \<Rightarrow> js_error.message e | NonError v \<Rightarrow> ''Unknown error''),
            paymentId = js_or (opt_get (body req) ''paymentId'') (JStr ''unknown'')\<rparr>), calls))"
  using assms by (simp add: handle_def Let_def split: prod.splits sum.splits)
text \<open>
  Claim C6.  The claim wants \<open>handle\<close> never to let an exception through.  The first
  call of the logger stands before the \<open>try\<close> block and the \<open>catch\<close> block calls the
  logger again: when the logger throws there, as \<open>Logger.sanitizeMeta\<close> does on a payment
  id nested too deeply for its recursion, \<open>handle\<close> answers nothing and the exception goes
  to its caller.  Here the first call throws for a callback that is valid, and the call
  in the \<open>catch\<close> block for a request without a body.
\<close>

theorem C6_logger_exception_propagates:
  "handle (\<lambda>k d. 0)
     (new_CallbackHandler ''test-secret-key''
        \<lparr>info = (\<lambda>m meta. Some (Err \<lparr>name = ''RangeError'',
             message = ''Maximum call stack size exceeded'', code = JUndefined,
             statusCode = JUndefined, details = None\<rparr>)),
         warn = (\<lambda>m meta. None), error = (\<lambda>m t. None), logPayment = (\<lambda>operation p s. None)\<rparr>)
     \<lparr>body = Some [(''paymentId'', JStr ''P1''), (''orderId'', JStr ''O1''),
        (''status'', JStr ''0''), (''amount'', JNum 5000), (''currency'', JStr ''DZD'')],
      x_satim_signature = JStr (generateSignature (\<lambda>k d. 0) ''test-secret-key''
        [(''paymentId'', JStr ''P1''), (''orderId'', JStr ''O1''),
         (''status'', JStr ''0''), (''amount'', JNum 5000), (''currency'', JStr ''DZD'')])\<rparr>
     (\<lambda>st r. None)
   = (Inl (Err \<lparr>name = ''RangeError'', message = ''Maximum call stack size exceeded'',
        code = JUndefined, statusCode = JUndefined, details = None\<rparr>), []) \<and>
   handle (\<lambda>k d. 0)
     (new_CallbackHandler ''test-secret-key''
        \<lparr>info = (\<lambda>m meta. None), warn = (\<lambda>m meta. None),
         error = (\<lambda>m t. Some (Err \<lparr>name = ''RangeError'',
             message = ''Maximum call stack size exceeded'', code = JUndefined,
             statusCode = JUndefined, details = None\<rparr>)),
         logPayment = (\<lambda>operation p s. None)\<rparr>)
     \<lparr>body = None, x_satim_signature = JUndefined\<rparr>
     (\<lambda>st r. None)
   = (Inl (Err \<lparr>name = ''RangeError'', message = ''Maximum call stack size exceeded'',
        code = JUndefined, statusCode = JUndefined, details = None\<rparr>), [])"
  by (simp add: handle_def new_CallbackHandler_def handle_try_no_body)

text \<open>
  Claim C6, as amended.  Let the first call of the logger and the calls that the \<open>catch\<close>
  block makes (of the logger, and of the response object with status 400) return.  Then
  \<open>handle\<close> lets no exception through, and it answers: with status 200 and the success
  acknowledgement that echoes the payment id, or with status 400 and a failure
  acknowledgement that carries the payment id of the body (\<open>unknown\<close> when there is
  none).  A request without a body, a required field that is missing, a missing and an
  invalid signature, a handler that rejects, and an exception of the logger or of the
  response object inside the \<open>try\<close> block are each answered with 400 and the message of
  what was thrown; the callback that passes all of this is answered with 200.
\<close>

theorem C6_handle_acknowledges:
  assumes "info (logger h) ''Received SATIM callback''
      [(''paymentId'', opt_get (body req) ''paymentId''),
       (''status'', opt_get (body req) ''status'')] = None"
    and "\<forall>t. error (logger h) ''Callback processing error'' t = None"
    and "\<forall>r. res 400 r = None"
  shows
    "(\<exists>st resp calls. handle hmac h req res = (Inr (st, resp), calls) \<and>
        (st = 200 \<and> resp = \<lparr>success = True, message = ''Callback processed successfully'',
             paymentId = opt_get (body req) ''paymentId''\<rparr> \<or>
         st = 400 \<and> CallbackResponse.success resp = False \<and>
           CallbackResponse.paymentId resp
             = js_or (opt_get (body req) ''paymentId'') (JStr ''unknown''))) \<and>
     (body req = None \<longrightarrow>
        handle hmac h req res
          = (Inr (400, \<lparr>success = False,
               message = js_error.message (TypeError_undefined ''paymentId''),
               paymentId = JStr ''unknown''\<rparr>), [])) \<and>
     (\<forall>d pre f post.
        body req = Some d \<and> requiredFields = pre @ f # post \<and>
        (\<forall>g\<in>set pre. truthy (js_get d g)) \<and> \<not> truthy (js_get d f) \<longrightarrow>
        handle hmac h req res
          = (Inr (400, \<lparr>success = False, message = ''Missing required field: '' @ f,
               paymentId = js_or (js_get d ''paymentId'') (JStr ''unknown'')\<rparr>), [])) \<and>
     (\<forall>d. body req = Some d \<and> (\<forall>f\<in>set requiredFields. truthy (js_get d f)) \<longrightarrow>
        (let signature = js_or (js_get d ''signature'') (x_satim_signature req);
             status = mapStatus (js_get d ''status'');
             d' = with_field d ''status'' status;
             calls = (case onPaymentFailed h of None \<Rightarrow> [] | Some f \<Rightarrow> [(FailureHandler, d')]);
             ack = \<lparr>success = True, message = ''Callback processed successfully'',
                    paymentId = js_get d ''paymentId''\<rparr>;
             nack = (\<lambda>t. Inr (400, \<lparr>success = False,
                      message = (case t of Err e \<Rightarrow> js_error.message e
                                 | NonError v \<Rightarrow> ''Unknown error''),
                      paymentId = js_get d ''paymentId''\<rparr>))
         in (\<not> truthy signature \<longrightarrow>
               handle hmac h req res
                 = (nack (Err (SignatureError ''Missing signature'' None)), [])) \<and>
            (truthy signature \<and>
             signature \<noteq> JStr (generateSignature hmac (secretKey h) (without_signature d)) \<longrightarrow>
               handle hmac h req res
                 = (nack (Err (SignatureError ''Invalid signature''
                      (Some [(''received'', DValue signature),
                             (''payload'', DKeys (object_keys (without_signature d)))]))), [])) \<and>
            (signature = JStr (generateSignature hmac (secretKey h) (without_signature d)) \<longrightarrow>
               (\<forall>f t. onPaymentFailed h = Some f \<and> f d' = Some t \<longrightarrow>
                  handle hmac h req res = (nack t, [(FailureHandler, d')])) \<and>
               (onPaymentFailed h = None \<or> (\<exists>f. onPaymentFailed h = Some f \<and> f d' = None) \<longrightarrow>
                  (\<forall>t. logPayment (logger h) ''callback-processed'' (js_get d ''paymentId'') status
                        = Some t \<longrightarrow>
                     handle hmac h req res = (nack t, calls)) \<and>
                  (logPayment (logger h) ''callback-processed'' (js_get d ''paymentId'') status
                     = None \<longrightarrow>
                     (\<forall>t. res 200 ack = Some t \<longrightarrow> handle hmac h req res = (nack t, calls)) \<and>
                     (res 200 ack = None \<longrightarrow>
                        handle hmac h req res = (Inr (200, ack), calls)))))))"
proof -
  note hq = handle_quiet [where h = h and req = req and res = res and hmac = hmac, OF assms]
  have 1: "\<exists>st resp calls. handle hmac h req res = (Inr (st, resp), calls) \<and>
        (st = 200 \<and> resp = \<lparr>success = True, message = ''Callback processed successfully'',
             paymentId = opt_get (body req) ''paymentId''\<rparr> \<or>
         st = 400 \<and> CallbackResponse.success resp = False \<and>
           CallbackResponse.paymentId resp
             = js_or (opt_get (body req) ''paymentId'') (JStr ''unknown''))"
  proof (cases "handle_try hmac h req res")
    case (Pair out calls)
    show ?thesis
    proof (cases out)
      case (Inl err)
      with Pair show ?thesis by (simp add: hq)
    next
      case (Inr r)
      with Pair have "fst (handle_try hmac h req res) = Inr r" by simp
      from handle_try_Inr [OF this] Pair Inr show ?thesis by (simp add: hq)
    qed
  qed
  have 2: "body req = None \<Longrightarrow>
        handle hmac h req res
          = (Inr (400, \<lparr>success = False,
               message = js_error.message (TypeError_undefined ''paymentId''),
               paymentId = JStr ''unknown''\<rparr>), [])"
    by (simp add: hq handle_try_no_body opt_get_def js_or_def)
  have 3: "handle hmac h req res
          = (Inr (400, \<lparr>success = False, message = ''Missing required field: '' @ f,
               paymentId = js_or (js_get d ''paymentId'') (JStr ''unknown'')\<rparr>), [])"
    if "body req = Some d" "requiredFields = pre @ f # post"
      "\<forall>g\<in>set pre. truthy (js_get d g)" "\<not> truthy (js_get d f)" for d pre f post
    using that(1) by (simp add: hq handle_try_missing_field [OF that] opt_get_def Error_def)
  have 4: "(let signature = js_or (js_get d ''signature'') (x_satim_signature req);
             status = mapStatus (js_get d ''status'');
             d' = with_field d ''status'' status;
             calls = (case onPaymentFailed h of None \<Rightarrow> [] | Some f \<Rightarrow> [(FailureHandler, d')]);
             ack = \<lparr>success = True, message = ''Callback processed successfully'',
                    paymentId = js_get d ''paymentId''\<rparr>;
             nack = (\<lambda>t. Inr (400, \<lparr>success = False,
                      message = (case t of Err e \<Rightarrow> js_error.message e
                                 | NonError v \<Rightarrow> ''Unknown error''),
                      paymentId = js_get d ''paymentId''\<rparr>))
         in (\<not> truthy signature \<longrightarrow>
               handle hmac h req res
                 = (nack (Err (SignatureError ''Missing signature'' None)), [])) \<and>
            (truthy signature \<and>
             signature \<noteq> JStr (generateSignature hmac (secretKey h) (without_signature d)) \<longrightarrow>
               handle hmac h req res
                 = (nack (Err (SignatureError ''Invalid signature''
                      (Some [(''received'', DValue signature),
                             (''payload'', DKeys (object_keys (without_signature d)))]))), [])) \<and>
            (signature = JStr (generateSignature hmac (secretKey h) (without_signature d)) \<longrightarrow>
               (\<forall>f t. onPaymentFailed h = Some f \<and> f d' = Some t \<longrightarrow>
                  handle hmac h req res = (nack t, [(FailureHandler, d')])) \<and>
               (onPaymentFailed h = None \<or> (\<exists>f. onPaymentFailed h = Some f \<and> f d' = None) \<longrightarrow>
                  (\<forall>t. logPayment (logger h) ''callback-processed'' (js_get d ''paymentId'') status
                        = Some t \<longrightarrow>
                     handle hmac h req res = (nack t, calls)) \<and>
                  (logPayment (logger h) ''callback-processed'' (js_get d ''paymentId'') status
                     = None \<longrightarrow>
                     (\<forall>t. res 200 ack = Some t \<longrightarrow> handle hmac h req res = (nack t, calls)) \<and>
                     (res 200 ack = None \<longrightarrow>
                        handle hmac h req res = (Inr (200, ack), calls))))))"
    if b: "body req = Some d" and v: "\<forall>f\<in>set requiredFields. truthy (js_get d f)" for d
  proof -
    have "truthy (js_get d ''paymentId'')" using v by (simp add: requiredFields_def)
    then have pid: "js_or (opt_get (body req) ''paymentId'') (JStr ''unknown'')
        = js_get d ''paymentId''"
      by (simp add: b opt_get_def js_or_def)
    have a: "handle hmac h req res
        = (Inr (400, \<lparr>success = False, message = js_error.message (SignatureError ''Missing signature'' None),
             paymentId = js_get d ''paymentId''\<rparr>), [])"
      if "\<not> truthy (js_or (js_get d ''signature'') (x_satim_signature req))"
      by (simp add: hq handle_try_missing_signature [OF b v that] pid)
    have c: "handle hmac h req res
        = (Inr (400, \<lparr>success = False, message = js_error.message (SignatureError ''Invalid signature''
               (Some [(''received'', DValue (js_or (js_get d ''signature'') (x_satim_signature req))),
                      (''payload'', DKeys (object_keys (without_signature d)))])),
             paymentId = js_get d ''paymentId''\<rparr>), [])"
      if "truthy (js_or (js_get d ''signature'') (x_satim_signature req))"
        "js_or (js_get d ''signature'') (x_satim_signature req)
          \<noteq> JStr (generateSignature hmac (secretKey h) (without_signature d))"
      by (simp add: hq handle_try_invalid_signature [OF b v that] pid)
    have e: "handle hmac h req res =
       (case (case invoke FailureHandler (onPaymentFailed h)
            (with_field d ''status'' (mapStatus (js_get d ''status''))) of
          (Some e, calls) \<Rightarrow> (Inl e, calls)
        | (None, calls) \<Rightarrow>
            (case logPayment (logger h) ''callback-processed'' (js_get d ''paymentId'')
                 (mapStatus (js_get d ''status'')) of
               Some e \<Rightarrow> (Inl e, calls)
             | None \<Rightarrow>
                 (case res 200 \<lparr>success = True, message = ''Callback processed successfully'',
                               paymentId = js_get d ''paymentId''\<rparr> of
                    Some e \<Rightarrow> (Inl e, calls)
                  | None \<Rightarrow> (Inr \<lparr>success = True, message = ''Callback processed successfully'',
                                 paymentId = js_get d ''paymentId''\<rparr>, calls)))) of
         (Inr response, calls) \<Rightarrow> (Inr (200, response), calls)
       | (Inl err, calls) \<Rightarrow>
           (Inr (400, \<lparr>success = False,
              message = (case err of Err e \<Rightarrow> js_error.message e | NonError v \<Rightarrow> ''Unknown error''),
              paymentId = js_get d ''paymentId''\<rparr>), calls))"
      if "js_or (js_get d ''signature'') (x_satim_signature req)
          = JStr (generateSignature hmac (secretKey h) (without_signature d))"
      by (simp only: hq handle_try_accepted [OF b v that] pid)
    show ?thesis
      unfolding Let_def
    proof (intro conjI impI allI)
      assume "\<not> truthy (js_or (js_get d ''signature'') (x_satim_signature req))"
      from a [OF this] show "handle hmac h req res =
        (Inr (400, \<lparr>success = False,
           message = (case Err (SignatureError ''Missing signature'' None) of
              Err e \<Rightarrow> js_error.message e | NonError v \<Rightarrow> ''Unknown error''),
           paymentId = js_get d ''paymentId''\<rparr>), [])"
        by simp
    next
      assume "truthy (js_or (js_get d ''signature'') (x_satim_signature req)) \<and>
        js_or (js_get d ''signature'') (x_satim_signature req)
          \<noteq> JStr (generateSignature hmac (secretKey h) (without_signature d))"
      then show "handle hmac h req res =
        (Inr (400, \<lparr>success = False,
           message = (case Err (SignatureError ''Invalid signature''
               (Some [(''received'', DValue (js_or (js_get d ''signature'') (x_satim_signature req))),
                      (''payload'', DKeys (object_keys (without_signature d)))])) of
              Err e \<Rightarrow> js_error.message e | NonError v \<Rightarrow> ''Unknown error''),
           paymentId = js_get d ''paymentId''\<rparr>), [])"
        using c by simp
    next
      fix f t
      assume s: "js_or (js_get d ''signature'') (x_satim_signature req)
          = JStr (generateSignature hmac (secretKey h) (without_signature d))"
        and "onPaymentFailed h = Some f \<and>
          f (with_field d ''status'' (mapStatus (js_get d ''status''))) = Some t"
      then show "handle hmac h req res =
        (Inr (400, \<lparr>success = False,
           message = (case t of Err e \<Rightarrow> js_error.message e | NonError v \<Rightarrow> ''Unknown error''),
           paymentId = js_get d ''paymentId''\<rparr>),
         [(FailureHandler, with_field d ''status'' (mapStatus (js_get d ''status'')))])"
        by (simp add: e [OF s] invoke_def)
    next
      fix t
      assume s: "js_or (js_get d ''signature'') (x_satim_signature req)
          = JStr (generateSignature hmac (secretKey h) (without_signature d))"
        and "onPaymentFailed h = None \<or> (\<exists>f. onPaymentFailed h = Some f \<and>
          f (with_field d ''status'' (mapStatus (js_get d ''status''))) = None)"
        and "logPayment (logger h) ''callback-processed'' (js_get d ''paymentId'')
          (mapStatus (js_get d ''status'')) = Some t"
      then show "handle hmac h req res =
        (Inr (400, \<lparr>success = False,
           message = (case t of Err e \<Rightarrow> js_error.message e | NonError v \<Rightarrow> ''Unknown error''),
           paymentId = js_get d ''paymentId''\<rparr>),
         case onPaymentFailed h of None \<Rightarrow> []
         | Some f \<Rightarrow> [(FailureHandler, with_field d ''status'' (mapStatus (js_get d ''status'')))])"
        by (auto simp: e [OF s] invoke_def)
    next
      fix t
      assume s: "js_or (js_get d ''signature'') (x_satim_signature req)
          = JStr (generateSignature hmac (secretKey h) (without_signature d))"
        and "onPaymentFailed h = None \<or> (\<exists>f. onPaymentFailed h = Some f \<and>
          f (with_field d ''status'' (mapStatus (js_get d ''status''))) = None)"
        and "logPayment (logger h) ''callback-processed'' (js_get d ''paymentId'')
          (mapStatus (js_get d ''status'')) = None"
        and "res 200 \<lparr>success = True, message = ''Callback processed successfully'',
                    paymentId = js_get d ''paymentId''\<rparr> = Some t"
      then show "handle hmac h req res =
        (Inr (400, \<lparr>success = False,
           message = (case t of Err e \<Rightarrow> js_error.message e | NonError v \<Rightarrow> ''Unknown error''),
           paymentId = js_get d ''paymentId''\<rparr>),
         case onPaymentFailed h of None \<Rightarrow> []
         | Some f \<Rightarrow> [(FailureHandler, with_field d ''status'' (mapStatus (js_get d ''status'')))])"
        by (auto simp: e [OF s] invoke_def)
    next
      assume s: "js_or (js_get d ''signature'') (x_satim_signature req)
          = JStr (generateSignature hmac (secretKey h) (without_signature d))"
        and "onPaymentFailed h = None \<or> (\<exists>f. onPaymentFailed h = Some f \<and>
          f (with_field d ''status'' (mapStatus (js_get d ''status''))) = None)"
        and "logPayment (logger h) ''callback-processed'' (js_get d ''paymentId'')
          (mapStatus (js_get d ''status'')) = None"
        and "res 200 \<lparr>success = True, message = ''Callback processed successfully'',
                    paymentId = js_get d ''paymentId''\<rparr> = None"
      then show "handle hmac h req res =
        (Inr (200, \<lparr>success = True, message = ''Callback processed successfully'',
                    paymentId = js_get d ''paymentId''\<rparr>),
         case onPaymentFailed h of None \<Rightarrow> []
         | Some f \<Rightarrow> [(FailureHandler, with_field d ''status'' (mapStatus (js_get d ''status'')))])"
        by (auto simp: e [OF s] invoke_def)
    qed
  qed
  from 1 2 3 4 show ?thesis by blast
qed
theorem C6_handle_acknowledges_witness:
  "handle (\<lambda>k d. 0)
     (onFailure (\<lambda>d. Some (Err (Error ''order is not known'')))
        (new_CallbackHandler ''test-secret-key''
           \<lparr>info = (\<lambda>m meta. None), warn = (\<lambda>m meta. None), error = (\<lambda>m t. None),
            logPayment = (\<lambda>operation p s. None)\<rparr>))
     \<lparr>body = Some [(''paymentId'', JStr ''P1''), (''orderId'', JStr ''O1''),
        (''status'', JStr ''0''), (''amount'', JNum 5000), (''currency'', JStr ''DZD'')],
      x_satim_signature = JStr (generateSignature (\<lambda>k d. 0) ''test-secret-key''
        [(''paymentId'', JStr ''P1''), (''orderId'', JStr ''O1''),
         (''status'', JStr ''0''), (''amount'', JNum 5000), (''currency'', JStr ''DZD'')])\<rparr>
     (\<lambda>st r. None)
   = (Inr (400, \<lparr>success = False, message = ''order is not known'', paymentId = JStr ''P1''\<rparr>),
      [(FailureHandler,
        [(''paymentId'', JStr ''P1''), (''orderId'', JStr ''O1''),
         (''status'', JStr ''success''), (''amount'', JNum 5000), (''currency'', JStr ''DZD'')])]) \<and>
   handle (\<lambda>k d. 0)
     (new_CallbackHandler ''test-secret-key''
        \<lparr>info = (\<lambda>m meta. None), warn = (\<lambda>m meta. None), error = (\<lambda>m t. None),
         logPayment = (\<lambda>operation p s. None)\<rparr>)
     \<lparr>body = Some [(''paymentId'', JStr ''P1''), (''orderId'', JStr ''O1''),
        (''status'', JStr ''0''), (''amount'', JNum 5000), (''currency'', JStr ''DZD'')],
      x_satim_signature = JStr (generateSignature (\<lambda>k d. 0) ''test-secret-key''
        [(''paymentId'', JStr ''P1''), (''orderId'', JStr ''O1''),
         (''status'', JStr ''0''), (''amount'', JNum 5000), (''currency'', JStr ''DZD'')])\<rparr>
     (\<lambda>st r. None)
   = (Inr (200, \<lparr>success = True, message = ''Callback processed successfully'',
        paymentId = JStr ''P1''\<rparr>), []) \<and>
   handle (\<lambda>k d. 0)
     (new_CallbackHandler ''test-secret-key''
        \<lparr>info = (\<lambda>m meta. None), warn = (\<lambda>m meta. None), error = (\<lambda>m t. None),
         logPayment = (\<lambda>operation p s. None)\<rparr>)
     \<lparr>body = Some [(''paymentId'', JStr ''P1''), (''orderId'', JStr ''O1''),
        (''status'', JStr ''0''), (''amount'', JNum 5000), (''currency'', JStr ''DZD'')],
      x_satim_signature = JStr ''INVALID_SIGNATURE''\<rparr>
     (\<lambda>st r. None)
   = (Inr (400, \<lparr>success = False, message = ''Invalid signature'', paymentId = JStr ''P1''\<rparr>),
      [])"
proof -
  define cb where "cb = [(''paymentId'', JStr ''P1''), (''orderId'', JStr ''O1''),
    (''status'', JStr ''0''), (''amount'', JNum 5000), (''currency'', JStr ''DZD'')]"
  define cb' where "cb' = [(''paymentId'', JStr ''P1''), (''orderId'', JStr ''O1''),
    (''status'', JStr ''success''), (''amount'', JNum 5000), (''currency'', JStr ''DZD'')]"
  define hm :: hmac_sha256 where "hm = (\<lambda>k d. 0)"
  define lg :: Logger where "lg = \<lparr>info = (\<lambda>m meta. None), warn = (\<lambda>m meta. None),
    error = (\<lambda>m t. None), logPayment = (\<lambda>operation p s. None)\<rparr>"
  define rj :: outcome_handler where "rj = (\<lambda>d. Some (Err (Error ''order is not known'')))"
  define h0 where "h0 = new_CallbackHandler ''test-secret-key'' lg"
  define h1 where "h1 = onFailure rj h0"
  define sig where "sig = JStr (generateSignature hm ''test-secret-key'' cb)"
  define req1 where "req1 = \<lparr>body = Some cb, x_satim_signature = sig\<rparr>"
  define req2 where "req2 = \<lparr>body = Some cb, x_satim_signature = JStr ''INVALID_SIGNATURE''\<rparr>"
  define res :: Response where "res = (\<lambda>st r. None)"
  have key: "secretKey h0 = ''test-secret-key''" "secretKey h1 = ''test-secret-key''"
    and lgs: "logger h0 = lg" "logger h1 = lg"
    and hs: "onPaymentFailed h0 = None" "onPaymentFailed h1 = Some rj"
    by (simp_all add: h0_def h1_def new_CallbackHandler_def onFailure_def)
  have quiet: "info lg m meta = None" "\<forall>t. error lg m t = None" "\<forall>r. res 400 r = None"
    "logPayment lg operation p s = None" "res 200 r = None" for m meta operation p s r
    by (simp_all add: lg_def res_def)
  have ws: "without_signature cb = cb" by (simp add: cb_def without_signature_def)
  have fields: "\<forall>f\<in>set requiredFields. truthy (js_get cb f)"
    by (simp add: requiredFields_def cb_def js_get_def)
  have s: "js_get cb ''signature'' = JUndefined"
    and pid: "js_get cb ''paymentId'' = JStr ''P1''"
    and st: "js_get cb ''status'' = JStr ''0''"
    by (simp_all add: cb_def js_get_def object_prototype_keys_def)
  have m: "mapStatus (JStr ''0'') = JStr ''success''" by code_simp
  have wf: "with_field cb ''status'' (JStr ''success'') = cb'"
    by (simp add: with_field_def cb_def cb'_def object_keys_def)
  have b: "body req1 = Some cb" "x_satim_signature req1 = sig"
    "body req2 = Some cb" "x_satim_signature req2 = JStr ''INVALID_SIGNATURE''"
    by (simp_all add: req1_def req2_def)
  have ne: "JStr ''INVALID_SIGNATURE'' \<noteq> sig"
  proof
    assume "JStr ''INVALID_SIGNATURE'' = sig"
    then have "length ''INVALID_SIGNATURE'' = length (generateSignature hm ''test-secret-key'' cb)"
      by (simp add: sig_def)
    then show False by (simp add: length_generateSignature)
  qed
  note t1 = C6_handle_acknowledges [where h = h1 and req = req1 and res = res and hmac = hm,
      unfolded lgs, OF quiet(1) quiet(2) quiet(3), THEN conjunct2, THEN conjunct2, THEN conjunct2,
      rule_format, of cb, unfolded Let_def b s st m wf key ws js_or_def, simplified]
  note t2 = C6_handle_acknowledges [where h = h0 and req = req1 and res = res and hmac = hm,
      unfolded lgs, OF quiet(1) quiet(2) quiet(3), THEN conjunct2, THEN conjunct2, THEN conjunct2,
      rule_format, of cb, unfolded Let_def b s st m wf key ws js_or_def, simplified]
  note t3 = C6_handle_acknowledges [where h = h0 and req = req2 and res = res and hmac = hm,
      unfolded lgs, OF quiet(1) quiet(2) quiet(3), THEN conjunct2, THEN conjunct2, THEN conjunct2,
      rule_format, of cb, unfolded Let_def b s st m wf key ws js_or_def, simplified]
  have a1: "handle hm h1 req1 res
      = (Inr (400, \<lparr>success = False, message = ''order is not known'', paymentId = JStr ''P1''\<rparr>),
         [(FailureHandler, cb')])"
    using t1 fields by (simp add: sig_def hs rj_def pid Error_def)
  have a2: "handle hm h0 req1 res
      = (Inr (200, \<lparr>success = True, message = ''Callback processed successfully'',
           paymentId = JStr ''P1''\<rparr>), [])"
    using t2 fields by (simp add: sig_def hs pid quiet lgs)
  have a3: "handle hm h0 req2 res
      = (Inr (400, \<lparr>success = False, message = ''Invalid signature'', paymentId = JStr ''P1''\<rparr>),
         [])"
    using t3 fields ne by (simp add: sig_def pid SignatureError_def SatimError_def)
  from a1 a2 a3 show ?thesis
    unfolding h1_def h0_def req1_def req2_def sig_def rj_def lg_def hm_def res_def cb_def cb'_def
    by (intro conjI)
qed

text \<open>
  Claim C1.  The claim wants a verified callback with status \<open>6\<close> to reach the
  cancellation handler only.  Here all three handlers are registered, the signature is
  the valid one, for any key and any HMAC, and neither the logger nor the response
  object throws: the status is mapped to \<open>cancelled\<close>, the callback is acknowledged with
  200, and the one handler called is the failure handler.
\<close>

theorem C1_status_6_reaches_failure_handler:
  "mapStatus (JStr ''6'') = JStr (status_value CANCELLED) \<and>
   handle hmac
     (onCancellation (\<lambda>d. None) (onFailure (\<lambda>d. None) (onSuccess (\<lambda>d. None)
        (new_CallbackHandler key
           \<lparr>info = (\<lambda>m meta. None), warn = (\<lambda>m meta. None), error = (\<lambda>m t. None),
            logPayment = (\<lambda>operation p s. None)\<rparr>))))
     \<lparr>body = Some [(''paymentId'', JStr ''P1''), (''orderId'', JStr ''O1''),
        (''status'', JStr ''6''), (''amount'', JNum 5000), (''currency'', JStr ''DZD''),
        (''signature'', JStr (generateSignature hmac key
           [(''paymentId'', JStr ''P1''), (''orderId'', JStr ''O1''),
            (''status'', JStr ''6''), (''amount'', JNum 5000), (''currency'', JStr ''DZD'')]))],
      x_satim_signature = JUndefined\<rparr>
     (\<lambda>st r. None)
   = (Inr (200,
        \<lparr>success = True, message = ''Callback processed successfully'',
         paymentId = JStr ''P1''\<rparr>),
      [(FailureHandler,
        [(''paymentId'', JStr ''P1''), (''orderId'', JStr ''O1''),
         (''status'', JStr ''cancelled''), (''amount'', JNum 5000), (''currency'', JStr ''DZD''),
         (''signature'', JStr (generateSignature hmac key
            [(''paymentId'', JStr ''P1''), (''orderId'', JStr ''O1''),
             (''status'', JStr ''6''), (''amount'', JNum 5000),
             (''currency'', JStr ''DZD'')]))])])"
proof -
  define cb where "cb = [(''paymentId'', JStr ''P1''), (''orderId'', JStr ''O1''),
    (''status'', JStr ''6''), (''amount'', JNum 5000), (''currency'', JStr ''DZD'')]"
  define sig where "sig = JStr (generateSignature hmac key cb)"
  define lg :: Logger where "lg = \<lparr>info = (\<lambda>m meta. None), warn = (\<lambda>m meta. None),
    error = (\<lambda>m t. None), logPayment = (\<lambda>operation p s. None)\<rparr>"
  define h where "h = onCancellation (\<lambda>d. None) (onFailure (\<lambda>d. None)
    (onSuccess (\<lambda>d. None) (new_CallbackHandler key lg)))"
  define d where "d = cb @ [(''signature'', sig)]"
  define d' where "d' = [(''paymentId'', JStr ''P1''), (''orderId'', JStr ''O1''),
    (''status'', JStr ''cancelled''), (''amount'', JNum 5000), (''currency'', JStr ''DZD''),
    (''signature'', sig)]"
  define req where "req = \<lparr>body = Some d, x_satim_signature = JUndefined\<rparr>"
  define res :: Response where "res = (\<lambda>st r. None)"
  have m: "mapStatus (JStr ''6'') = JStr ''cancelled''" by code_simp
  have key: "secretKey h = key" and failed: "onPaymentFailed h = Some (\<lambda>d. None)"
    and lgh: "logger h = lg"
    by (simp_all add: h_def onCancellation_def onFailure_def onSuccess_def new_CallbackHandler_def)
  have ws: "without_signature d = cb"
    by (simp add: d_def cb_def without_signature_def)
  have fields: "\<forall>f\<in>set requiredFields. truthy (js_get d f)"
    by (simp add: requiredFields_def d_def cb_def js_get_def)
  have s: "js_get d ''signature'' = sig" and st: "js_get d ''status'' = JStr ''6''"
    and pid: "js_get d ''paymentId'' = JStr ''P1''"
    by (simp_all add: d_def cb_def js_get_def)
  have t: "truthy sig" by (simp add: sig_def generateSignature_nonempty)
  have wf: "with_field d ''status'' (JStr ''cancelled'') = d'"
    by (simp add: with_field_def d_def d'_def cb_def object_keys_def)
  have b: "body req = Some d" "x_satim_signature req = JUndefined" by (simp_all add: req_def)
  have "js_or (js_get d ''signature'') (x_satim_signature req)
      = JStr (generateSignature hmac (secretKey h) (without_signature d))"
    using t by (simp add: s b js_or_def key ws sig_def)
  from handle_try_accepted [OF b(1) fields this, of res]
  have "handle_try hmac h req res
      = (Inr \<lparr>success = True, message = ''Callback processed successfully'',
           paymentId = JStr ''P1''\<rparr>, [(FailureHandler, d')])"
    by (simp add: st m wf failed invoke_def lgh lg_def res_def pid)
  then have "handle hmac h req res
      = (Inr (200, \<lparr>success = True, message = ''Callback processed successfully'',
          paymentId = JStr ''P1''\<rparr>), [(FailureHandler, d')])"
    by (simp add: handle_def lgh lg_def)
  with m show ?thesis
    unfolding h_def d_def d'_def sig_def cb_def req_def res_def lg_def by simp
qed

section \<open>Properties of the gateway client\<close>

lemma js_rem_mod: "0 \<le> a \<Longrightarrow> js_rem a 100 = a mod 100"
  by (simp add: js_rem_def)

lemma instanceof_SatimError_base:
  "instanceof_SatimError (SatimError m c sc d)"
  by (simp add: instanceof_SatimError_def SatimError_def)

lemma registerPayment_sent:
  "snd (registerPayment post request) = snd (registerPayment_try post request)"
  by (cases "registerPayment_try post request") (auto simp: registerPayment_def split: sum.splits)

lemma registerPayment_4999_example:
  "registerPayment (\<lambda>endpoint params. Inl NoResponse)
     \<lparr>userName = ''u'', password = ''p'', orderNumber = ''ORD0001001'', amount = 4999,
      currency = ''012'', returnUrl = ''https://shop.example/return'', failUrl = None,
      language = ''fr'', jsonParams = []\<rparr>
   = (Inl \<lparr>name = ''SatimError'', message = ''Amount must be at least 5000 centimes (50 DA)'',
        code = JStr ''5'', statusCode = JUndefined, details = None\<rparr>, [])"
  by (simp add: registerPayment_def registerPayment_try_def MIN_AMOUNT_def Number_toString_def Number_toString_nat_def
      nat_to_string.simps digit_char_def instanceof_SatimError_def SatimError_def
      SATIM_ERROR_CODES_INVALID_PARAMETER_def)

text \<open>
  Claim C4.  The claim wants the failure to be of the class ValidationError.  For the
  amount 4999 registerPayment fails, and sends nothing, but what it throws is the base
  error of the module with the gateway code \<open>5\<close> and no status code; a ValidationError
  with the same message has another name, the code \<open>VALIDATION_ERROR\<close> and the status
  code 400.
\<close>

theorem C4_amount_error_is_no_ValidationError:
  "registerPayment (\<lambda>endpoint params. Inl NoResponse)
     \<lparr>userName = ''u'', password = ''p'', orderNumber = ''ORD0001001'', amount = 4999,
      currency = ''012'', returnUrl = ''https://shop.example/return'', failUrl = None,
      language = ''fr'', jsonParams = []\<rparr>
   = (Inl \<lparr>name = ''SatimError'', message = ''Amount must be at least 5000 centimes (50 DA)'',
        code = JStr ''5'', statusCode = JUndefined, details = None\<rparr>, []) \<and>
   ValidationError ''Amount must be at least 5000 centimes (50 DA)'' None
   = \<lparr>name = ''ValidationError'', message = ''Amount must be at least 5000 centimes (50 DA)'',
      code = JStr ''VALIDATION_ERROR'', statusCode = JNum 400, details = None\<rparr> \<and>
   \<lparr>name = ''SatimError'', message = ''Amount must be at least 5000 centimes (50 DA)'',
      code = JStr ''5'', statusCode = JUndefined, details = None\<rparr>
   \<noteq> ValidationError ''Amount must be at least 5000 centimes (50 DA)'' None"
  using registerPayment_4999_example by (simp add: ValidationError_def SatimError_def)

text \<open>
  Claim C4, as amended.  An amount below the minimum of 5000 centimes, or one that is no
  multiple of 100, makes registerPayment fail with the base error of the module, with
  the gateway code of an invalid parameter, and no request is sent.  For an amount that
  passes both checks exactly one request is sent, to \<open>register.do\<close>.
\<close>

theorem C4_registerPayment_amount_validation:
  "(SatimRegisterPaymentRequest.amount request < 5000 \<longrightarrow>
      registerPayment post request =
        (Inl (SatimError ''Amount must be at least 5000 centimes (50 DA)''
           (JStr SATIM_ERROR_CODES_INVALID_PARAMETER) JUndefined None), [])) \<and>
   (5000 \<le> SatimRegisterPaymentRequest.amount request \<and>
    SatimRegisterPaymentRequest.amount request mod 100 \<noteq> 0 \<longrightarrow>
      registerPayment post request =
        (Inl (SatimError ''Amount must be a multiple of 100 centimes''
           (JStr SATIM_ERROR_CODES_INVALID_PARAMETER) JUndefined None), [])) \<and>
   (5000 \<le> SatimRegisterPaymentRequest.amount request \<and>
    SatimRegisterPaymentRequest.amount request mod 100 = 0 \<longrightarrow>
      snd (registerPayment post request)
        = [(API_ENDPOINTS_REGISTER_PAYMENT, register_form request)])"
proof (intro conjI impI)
  have m: "Number_toString MIN_AMOUNT = ''5000''"
    by (simp add: MIN_AMOUNT_def Number_toString_def Number_toString_nat_def nat_to_string.simps digit_char_def)
  assume "SatimRegisterPaymentRequest.amount request < 5000"
  then show "registerPayment post request =
        (Inl (SatimError ''Amount must be at least 5000 centimes (50 DA)''
           (JStr SATIM_ERROR_CODES_INVALID_PARAMETER) JUndefined None), [])"
    by (simp add: registerPayment_def registerPayment_try_def MIN_AMOUNT_def [symmetric] m
        instanceof_SatimError_base)
next
  assume "5000 \<le> SatimRegisterPaymentRequest.amount request \<and>
    SatimRegisterPaymentRequest.amount request mod 100 \<noteq> 0"
  then show "registerPayment post request =
        (Inl (SatimError ''Amount must be a multiple of 100 centimes''
           (JStr SATIM_ERROR_CODES_INVALID_PARAMETER) JUndefined None), [])"
    by (simp add: registerPayment_def registerPayment_try_def MIN_AMOUNT_def js_rem_mod
        instanceof_SatimError_base)
next
  assume "5000 \<le> SatimRegisterPaymentRequest.amount request \<and>
    SatimRegisterPaymentRequest.amount request mod 100 = 0"
  then show "snd (registerPayment post request)
        = [(API_ENDPOINTS_REGISTER_PAYMENT, register_form request)]"
    by (simp add: registerPayment_sent registerPayment_try_def MIN_AMOUNT_def js_rem_mod Let_def
        split: sum.splits prod.splits)
qed

theorem C4_registerPayment_amount_validation_witness:
  "registerPayment (\<lambda>endpoint params. Inl NoResponse)
     \<lparr>userName = ''u'', password = ''p'', orderNumber = ''ORD0001001'', amount = 4999,
      currency = ''012'', returnUrl = ''https://shop.example/return'', failUrl = None,
      language = ''fr'', jsonParams = []\<rparr>
   = (Inl (SatimError ''Amount must be at least 5000 centimes (50 DA)''
        (JStr SATIM_ERROR_CODES_INVALID_PARAMETER) JUndefined None), []) \<and>
   registerPayment (\<lambda>endpoint params. Inl NoResponse)
     \<lparr>userName = ''u'', password = ''p'', orderNumber = ''ORD0001001'', amount = 5050,
      currency = ''012'', returnUrl = ''https://shop.example/return'', failUrl = None,
      language = ''fr'', jsonParams = []\<rparr>
   = (Inl (SatimError ''Amount must be a multiple of 100 centimes''
        (JStr SATIM_ERROR_CODES_INVALID_PARAMETER) JUndefined None), []) \<and>
   snd (registerPayment (\<lambda>endpoint params. Inl NoResponse)
     \<lparr>userName = ''u'', password = ''p'', orderNumber = ''ORD0001001'', amount = 5000,
      currency = ''012'', returnUrl = ''https://shop.example/return'', failUrl = None,
      language = ''fr'', jsonParams = []\<rparr>)
   = [(''/register.do'',
       [(''userName'', FText ''u''), (''password'', FText ''p''),
        (''orderNumber'', FText ''ORD0001001''), (''amount'', FText ''5000''),
        (''currency'', FText ''012''), (''returnUrl'', FText ''https://shop.example/return''),
        (''language'', FText ''fr''), (''jsonParams'', FJson [])])] \<and>
   snd (registerPayment (\<lambda>endpoint params. Inl NoResponse)
     \<lparr>userName = ''u'', password = ''p'', orderNumber = ''ORD0001001'', amount = 10000,
      currency = ''012'', returnUrl = ''https://shop.example/return'', failUrl = None,
      language = ''fr'', jsonParams = []\<rparr>)
   = [(''/register.do'',
       [(''userName'', FText ''u''), (''password'', FText ''p''),
        (''orderNumber'', FText ''ORD0001001''), (''amount'', FText ''10000''),
        (''currency'', FText ''012''), (''returnUrl'', FText ''https://shop.example/return''),
        (''language'', FText ''fr''), (''jsonParams'', FJson [])])]"
  using
    C4_registerPayment_amount_validation [where post = "\<lambda>endpoint params. Inl NoResponse" and request =
     "\<lparr>userName = ''u'', password = ''p'', orderNumber = ''ORD0001001'', amount = 4999,
      currency = ''012'', returnUrl = ''https://shop.example/return'', failUrl = None,
      language = ''fr'', jsonParams = []\<rparr>"]
    C4_registerPayment_amount_validation [where post = "\<lambda>endpoint params. Inl NoResponse" and request =
     "\<lparr>userName = ''u'', password = ''p'', orderNumber = ''ORD0001001'', amount = 5050,
      currency = ''012'', returnUrl = ''https://shop.example/return'', failUrl = None,
      language = ''fr'', jsonParams = []\<rparr>"]
    C4_registerPayment_amount_validation [where post = "\<lambda>endpoint params. Inl NoResponse" and request =
     "\<lparr>userName = ''u'', password = ''p'', orderNumber = ''ORD0001001'', amount = 5000,
      currency = ''012'', returnUrl = ''https://shop.example/return'', failUrl = None,
      language = ''fr'', jsonParams = []\<rparr>"]
    C4_registerPayment_amount_validation [where post = "\<lambda>endpoint params. Inl NoResponse" and request =
     "\<lparr>userName = ''u'', password = ''p'', orderNumber = ''ORD0001001'', amount = 10000,
      currency = ''012'', returnUrl = ''https://shop.example/return'', failUrl = None,
      language = ''fr'', jsonParams = []\<rparr>"]
  by (simp add: register_form_def API_ENDPOINTS_REGISTER_PAYMENT_def Number_toString_def Number_toString_nat_def
      nat_to_string.simps digit_char_def)

section \<open>Properties of the payment orchestrator\<close>

lemma length_nat_to_string_pos: "0 < length (nat_to_string n)"
  by (subst nat_to_string.simps) simp

lemma last_nat_to_string: "last (nat_to_string n) = digit_char (n mod 10)"
  by (subst nat_to_string.simps) simp

lemma slice_last_append:
  "length ys = k \<Longrightarrow> xs \<noteq> [] \<Longrightarrow> slice_last (Suc k) (xs @ ys) = last xs # ys"
proof -
  assume a: "length ys = k" "xs \<noteq> []"
  then have "length (xs @ ys) - Suc k = length xs - 1" by simp
  moreover have "drop (length xs - 1) xs = [last xs]"
    using a(2) by (metis append_butlast_last_id append_eq_conv_conj length_butlast)
  ultimately show ?thesis using a by (simp add: slice_last_def)
qed

lemma nat_to_string_ge10:
  "10 \<le> n \<Longrightarrow> nat_to_string n = nat_to_string (n div 10) @ [digit_char (n mod 10)]"
  by (subst nat_to_string.simps) simp

lemma timestamp_last4:
  assumes "1000 \<le> now"
  shows "slice_last 4 (nat_to_string now) =
    [digit_char (now div 1000 mod 10), digit_char (now div 100 mod 10),
     digit_char (now div 10 mod 10), digit_char (now mod 10)]"
proof -
  have a: "10 \<le> now" "10 \<le> now div 10" "10 \<le> now div 10 div 10" using assms by auto
  have "nat_to_string now = nat_to_string (now div 1000)
      @ [digit_char (now div 100 mod 10), digit_char (now div 10 mod 10), digit_char (now mod 10)]"
    using a by (simp add: nat_to_string_ge10 div_mult2_eq [symmetric])
  moreover have "nat_to_string (now div 1000) \<noteq> []"
    using length_nat_to_string_pos [of "now div 1000"] by auto
  ultimately show ?thesis
    using slice_last_append [of "[digit_char (now div 100 mod 10), digit_char (now div 10 mod 10),
        digit_char (now mod 10)]" 3 "nat_to_string (now div 1000)"]
    by (simp add: last_nat_to_string)
qed

lemma random_pad3:
  assumes "r < 1000"
  shows "padStart 3 CHR ''0'' (nat_to_string r) =
    [digit_char (r div 100), digit_char (r div 10 mod 10), digit_char (r mod 10)]"
proof -
  have z: "digit_char 0 = CHR ''0''" by (simp add: digit_char_def)
  have r2: "replicate 2 c = [c, c]" for c :: char by (simp add: numeral_2_eq_2)
  consider "r < 10" | "10 \<le> r" "r < 100" | "100 \<le> r" using assms by linarith
  then show ?thesis
  proof cases
    case 1
    then show ?thesis by (simp add: nat_to_string.simps [of r] padStart_def z r2)
  next
    case 2
    then have "r div 10 < 10" "r div 100 = 0" by auto
    with 2 show ?thesis
      by (simp add: nat_to_string_ge10 nat_to_string.simps [of "r div 10"] padStart_def z)
  next
    case 3
    then have a: "10 \<le> r" "10 \<le> r div 10" "r div 100 < 10" using assms by auto
    have "nat_to_string (r div 100) = [digit_char (r div 100)]"
      using a(3) by (subst nat_to_string.simps) simp
    with a show ?thesis
      by (simp add: nat_to_string_ge10 padStart_def div_mult2_eq [symmetric])
  qed
qed

lemma generateOrderId_digits:
  assumes "1000 \<le> now" "now \<le> 8640000000000000" "is_double rand" "0 \<le> rand" "rand < 1"
  shows "generateOrderId prefix now rand =
    take 3 prefix @
    [digit_char (now div 1000 mod 10), digit_char (now div 100 mod 10),
     digit_char (now div 10 mod 10), digit_char (now mod 10)] @
    [digit_char (nat \<lfloor>js_times rand 1000\<rfloor> div 100),
     digit_char (nat \<lfloor>js_times rand 1000\<rfloor> div 10 mod 10),
     digit_char (nat \<lfloor>js_times rand 1000\<rfloor> mod 10)]"
proof -
  have n: "Number_toString_nat now = nat_to_string now"
    using assms(2) by (intro Number_toString_nat_small) simp
  have r: "nat \<lfloor>js_times rand 1000\<rfloor> < 1000" using assms(3-5) by (rule floor_random)
  then have "Number_toString_nat (nat \<lfloor>js_times rand 1000\<rfloor>)
      = nat_to_string (nat \<lfloor>js_times rand 1000\<rfloor>)"
    by (intro Number_toString_nat_small) simp
  with n timestamp_last4 [OF assms(1)] random_pad3 [OF r] show ?thesis
    by (simp add: generateOrderId_def substring0_def Let_def)
qed

lemma digit_char_mem: "d < 10 \<Longrightarrow> digit_char d \<in> set ''0123456789''"
  unfolding digit_char_def by (rule nth_mem) simp

text \<open>
  Claim C9.  When createPayment gets no order id (none, or the empty string), the order
  number is the generated one: the three characters \<open>ORD\<close> of the default prefix, the
  last four decimal digits of the timestamp and the three digits of the random number,
  padded with zeros; ten characters in all.  It is the order number of every request sent
  to the gateway and the order id of the response.  The timestamp is a time value of at
  least four digits (a time value is at most 8640000000000000), and the random number is
  a double in \<open>[0, 1)\<close>; its product with 1000 is the product of doubles, which stays
  below 1000.
\<close>

theorem C9_createPayment_generated_order_id:
  assumes "PaymentOrder.orderId order = None \<or> PaymentOrder.orderId order = Some []"
    and "1000 \<le> now" and "now \<le> 8640000000000000"
    and "is_double rand" and "0 \<le> rand" and "rand < 1"
  shows "length (generateOrderId ''ORD'' now rand) = 10 \<and>
      generateOrderId ''ORD'' now rand
        = substring0 3 ''ORD'' @ slice_last 4 (Number_toString_nat now)
          @ padStart 3 CHR ''0'' (Number_toString_nat (nat \<lfloor>js_times rand 1000\<rfloor>)) \<and>
      nat \<lfloor>js_times rand 1000\<rfloor> < 1000 \<and>
      generateOrderId ''ORD'' now rand
        = ''ORD''
          @ [digit_char (now div 1000 mod 10), digit_char (now div 100 mod 10),
             digit_char (now div 10 mod 10), digit_char (now mod 10)]
          @ [digit_char (nat \<lfloor>js_times rand 1000\<rfloor> div 100),
             digit_char (nat \<lfloor>js_times rand 1000\<rfloor> div 10 mod 10),
             digit_char (nat \<lfloor>js_times rand 1000\<rfloor> mod 10)] \<and>
      (\<forall>r. fst (createPayment post config now rand order) = Inr r
         \<longrightarrow> PaymentResponse.orderId r = generateOrderId ''ORD'' now rand) \<and>
      (\<forall>(endpoint, params) \<in> set (snd (createPayment post config now rand order)).
         map_of params ''orderNumber'' = Some (FText (generateOrderId ''ORD'' now rand)))"
proof -
  let ?id = "generateOrderId ''ORD'' now rand"
  have so: "str_or (PaymentOrder.orderId order) ?id = ?id"
    using assms(1) by (auto simp: str_or_def)
  have d: "?id = ''ORD''
        @ [digit_char (now div 1000 mod 10), digit_char (now div 100 mod 10),
           digit_char (now div 10 mod 10), digit_char (now mod 10)]
        @ [digit_char (nat \<lfloor>js_times rand 1000\<rfloor> div 100),
           digit_char (nat \<lfloor>js_times rand 1000\<rfloor> div 10 mod 10),
           digit_char (nat \<lfloor>js_times rand 1000\<rfloor> mod 10)]"
    using generateOrderId_digits [OF assms(2-6), of "''ORD''"] by simp
  then have l: "length ?id = 10" by simp
  have g: "?id = substring0 3 ''ORD'' @ slice_last 4 (Number_toString_nat now)
        @ padStart 3 CHR ''0'' (Number_toString_nat (nat \<lfloor>js_times rand 1000\<rfloor>))"
    by (simp add: generateOrderId_def Let_def)
  have b: "nat \<lfloor>js_times rand 1000\<rfloor> < 1000" using assms(4-6) by (rule floor_random)
  have r: "\<forall>r. fst (createPayment post config now rand order) = Inr r
         \<longrightarrow> PaymentResponse.orderId r = ?id"
    by (auto simp: createPayment_def so Let_def split: option.splits prod.splits sum.splits)
  have on: "orderNumber (register_request config order n a c) = n" for n a c
    by (simp add: register_request_def)
  have cases: "snd (createPayment post config now rand order) = [] \<or>
      (\<exists>request. orderNumber request = ?id \<and>
         snd (createPayment post config now rand order) = snd (registerPayment post request))"
  proof (cases "PaymentOrder.amount order")
    case None
    then show ?thesis by (simp add: createPayment_def)
  next
    case (Some a)
    show ?thesis
    proof (cases "a = 0")
      case True
      with Some show ?thesis by (simp add: createPayment_def)
    next
      case False
      let ?c = "if str_or (PaymentOrder.currency order) CURRENCY_DZD = ''DZD'' then CURRENCY_DZD
        else str_or (PaymentOrder.currency order) CURRENCY_DZD"
      have "snd (createPayment post config now rand order)
          = snd (registerPayment post (register_request config order ?id a ?c))"
        using Some False
        by (simp add: createPayment_def so Let_def split: prod.splits sum.splits)
      with on show ?thesis by blast
    qed
  qed
  have rp: "\<forall>(endpoint, params) \<in> set (snd (registerPayment post request)).
      map_of params ''orderNumber'' = Some (FText (orderNumber request))" for request
    by (auto simp: registerPayment_sent registerPayment_try_def register_form_def Let_def
        split: if_splits sum.splits prod.splits)
  have sent: "\<forall>(endpoint, params) \<in> set (snd (createPayment post config now rand order)).
         map_of params ''orderNumber'' = Some (FText ?id)"
    using cases rp by fastforce
  from l d g b r sent show ?thesis by (intro conjI)
qed

theorem C9_createPayment_generated_order_id_witness:
  "createPayment
     (\<lambda>endpoint params. Inr (200, [(''errorCode'', JStr ''0''), (''orderId'', JStr ''X''),
        (''formUrl'', JStr ''https://test2.satim.dz/pay'')]))
     \<lparr>username = ''merchant'', password = ''secret'', terminalId = ''E010900001'',
      returnUrl = ''https://shop.example/return'', failUrl = ''https://shop.example/fail''\<rparr>
     1762150000123 (4494592428115755 / 4503599627370496)
     \<lparr>PaymentOrder.orderId = None, amount = Some 5000, currency = Some ''DZD'',
      description = None, returnUrl = None\<rparr>
   = (Inr \<lparr>PaymentResponse.success = True, paymentId = JStr ''X'',
        paymentUrl = JStr ''https://test2.satim.dz/pay'', orderId = ''ORD0123998'',
        amount = 5000, currency = ''012'', status = PENDING,
        message = ''Payment registered successfully''\<rparr>,
      [(''/register.do'',
        [(''userName'', FText ''merchant''), (''password'', FText ''secret''),
         (''orderNumber'', FText ''ORD0123998''), (''amount'', FText ''5000''),
         (''currency'', FText ''012''), (''returnUrl'', FText ''https://shop.example/return''),
         (''failUrl'', FText ''https://shop.example/fail''),
         (''language'', FText ''fr''),
         (''jsonParams'', FJson [(''force_terminal_id'', JStr ''E010900001''),
            (''udf1'', JStr ''ORD0123998'')])])])"
proof -
  define order where "order = \<lparr>PaymentOrder.orderId = None, amount = Some 5000,
    currency = Some ''DZD'', description = None, returnUrl = None\<rparr>"
  define rand :: rat where "rand = 4494592428115755 / 4503599627370496"
  have dbl: "is_double rand" and tm: "js_times rand 1000 = 998"
    using js_times_0998 by (simp_all add: rand_def)
  have "PaymentOrder.orderId order = None \<or> PaymentOrder.orderId order = Some []"
    "(1000::nat) \<le> 1762150000123" "(1762150000123::nat) \<le> 8640000000000000"
    "is_double rand" "0 \<le> rand" "rand < 1"
    by (simp_all add: order_def dbl) (simp_all add: rand_def)
  note c = C9_createPayment_generated_order_id [OF this, THEN conjunct2, THEN conjunct2,
      THEN conjunct2, THEN conjunct1]
  have id: "generateOrderId ''ORD'' 1762150000123 rand = ''ORD0123998''"
    by (subst c) (simp add: tm digit_char_def)
  have five: "Number_toString 5000 = ''5000''"
    by (simp add: Number_toString_def Number_toString_nat_def nat_to_string.simps digit_char_def)
  show ?thesis
    unfolding rand_def [symmetric]
    by (simp add: createPayment_def id str_or_def CURRENCY_DZD_def register_request_def
        registerPayment_def registerPayment_try_def MIN_AMOUNT_def js_rem_def register_response_def
        js_get_def register_form_def API_ENDPOINTS_REGISTER_PAYMENT_def five Let_def)
qed

lemma poll_loop_pending:
  assumes "int elapsed < timeoutMs" and "observes_pending (verifyPayment i)"
  shows "poll_loop verifyPayment timeoutMs intervalMs elapsed i =
    poll_loop verifyPayment timeoutMs intervalMs
      (elapsed + call_ms (verifyPayment i) + intervalMs + timer_late_ms (verifyPayment i)) (Suc i)"
  using assms by (subst poll_loop.simps) (auto simp: observes_pending_def split: sum.splits)

lemma poll_loop_skip:
  assumes "\<forall>j<n. int (elapsed_at verifyPayment intervalMs j) < timeoutMs \<and>
      observes_pending (verifyPayment j)"
  shows "poll_loop verifyPayment timeoutMs intervalMs 0 0 =
    poll_loop verifyPayment timeoutMs intervalMs (elapsed_at verifyPayment intervalMs n) n"
  using assms
proof (induction n)
  case 0
  then show ?case by simp
next
  case (Suc n)
  then have "poll_loop verifyPayment timeoutMs intervalMs 0 0 =
    poll_loop verifyPayment timeoutMs intervalMs (elapsed_at verifyPayment intervalMs n) n"
    by simp
  also have "\<dots> = poll_loop verifyPayment timeoutMs intervalMs
      (elapsed_at verifyPayment intervalMs (Suc n)) (Suc n)"
    using Suc.prems by (subst poll_loop_pending) simp_all
  finally show ?case .
qed

lemma poll_loop_returns:
  assumes "0 < intervalMs"
  shows "\<exists>r. poll_loop verifyPayment timeoutMs intervalMs elapsed i = Some r"
proof (induction "nat (timeoutMs - int elapsed)" arbitrary: elapsed i rule: less_induct)
  case less
  show ?case
  proof (cases "int elapsed < timeoutMs")
    case False
    then show ?thesis by (subst poll_loop.simps) simp
  next
    case True
    show ?thesis
    proof (cases "observes_pending (verifyPayment i)")
      case False
      with True show ?thesis
        by (subst poll_loop.simps) (auto simp: observes_pending_def split: sum.splits)
    next
      case pending: True
      let ?e = "elapsed + call_ms (verifyPayment i) + intervalMs + timer_late_ms (verifyPayment i)"
      have "nat (timeoutMs - int ?e) < nat (timeoutMs - int elapsed)"
        using True assms by simp
      from less [OF this, of "Suc i"] show ?thesis
        using poll_loop_pending [of elapsed timeoutMs verifyPayment i intervalMs] True pending
        by simp
    qed
  qed
qed

lemma waitForPayment_pending_example:
  "waitForPayment
     (\<lambda>p i. \<lparr>outcome = Inr \<lparr>PaymentVerification.success = True, paymentId = p,
          orderId = JStr ''O1'', status = PENDING, amount = JNum 5000, currency = JStr ''012'',
          transactionId = JUndefined, authorizationCode = JUndefined, cardMask = JUndefined,
          paymentDate = None, message = JUndefined, rawResponse = []\<rparr>,
        call_ms = 0, timer_late_ms = 0\<rparr>) ''P1'' 20 10
   = Some (Inl (Error ''Payment verification timeout''))"
proof -
  define v1 :: "nat \<Rightarrow> poll" where
    "v1 = (\<lambda>i. \<lparr>outcome = Inr \<lparr>PaymentVerification.success = True, paymentId = ''P1'',
          orderId = JStr ''O1'', status = PENDING, amount = JNum 5000, currency = JStr ''012'',
          transactionId = JUndefined, authorizationCode = JUndefined, cardMask = JUndefined,
          paymentDate = None, message = JUndefined, rawResponse = []\<rparr>,
        call_ms = 0, timer_late_ms = 0\<rparr>)"
  have two: "j < 2 \<longleftrightarrow> j = 0 \<or> j = Suc 0" for j :: nat by auto
  have e1: "elapsed_at v1 10 2 = 20"
    by (simp add: numeral_2_eq_2 v1_def)
  have h1: "\<forall>j<2. int (elapsed_at v1 10 j) < 20 \<and> observes_pending (v1 j)"
    by (auto simp: two v1_def observes_pending_def)
  have "poll_loop v1 20 10 0 0 = poll_loop v1 20 10 (elapsed_at v1 10 2) 2"
    using h1 by (rule poll_loop_skip)
  also have "\<dots> = Some (Inl (Error ''Payment verification timeout''))"
    unfolding e1 by (subst poll_loop.simps) simp
  finally show ?thesis by (simp add: waitForPayment_def v1_def)
qed

text \<open>
  Claim C7.  The claim wants the wait to fail with an error of the timeout class when
  the timeout elapses.  With every poll observing PENDING, a timeout of 20 ms and an
  interval of 10 ms, the wait fails with a plain \<open>Error\<close>, which has no code and no
  status code and is no instance of the module's errors; the TimeoutError with that
  message is another value.
\<close>

theorem C7_timeout_error_is_no_TimeoutError:
  "waitForPayment
     (\<lambda>p i. \<lparr>outcome = Inr \<lparr>PaymentVerification.success = True, paymentId = p,
          orderId = JStr ''O1'', status = PENDING, amount = JNum 5000, currency = JStr ''012'',
          transactionId = JUndefined, authorizationCode = JUndefined, cardMask = JUndefined,
          paymentDate = None, message = JUndefined, rawResponse = []\<rparr>,
        call_ms = 0, timer_late_ms = 0\<rparr>) ''P1'' 20 10
   = Some (Inl \<lparr>name = ''Error'', message = ''Payment verification timeout'',
        code = JUndefined, statusCode = JUndefined, details = None\<rparr>) \<and>
   TimeoutError ''Payment verification timeout'' None
   = \<lparr>name = ''TimeoutError'', message = ''Payment verification timeout'',
      code = JStr ''TIMEOUT'', statusCode = JNum 408, details = None\<rparr> \<and>
   \<lparr>name = ''Error'', message = ''Payment verification timeout'',
      code = JUndefined, statusCode = JUndefined, details = None\<rparr>
   \<noteq> TimeoutError ''Payment verification timeout'' None \<and>
   \<not> instanceof_SatimError \<lparr>name = ''Error'', message = ''Payment verification timeout'',
      code = JUndefined, statusCode = JUndefined, details = None\<rparr>"
  using waitForPayment_pending_example
  by (simp add: Error_def TimeoutError_def SatimError_def SATIM_ERROR_CODES_TIMEOUT_def
      instanceof_SatimError_def)

text \<open>
  Claim C7, as amended.  Let the polls before the \<open>n\<close>-th each start within the timeout
  and observe PENDING.  If the \<open>n\<close>-th poll starts within the timeout and observes
  another status, waitForPayment returns that verification; if it fails, its error is the
  result of waitForPayment and no further poll is made; if the timeout has elapsed when
  it is due, waitForPayment fails with the plain \<open>Error\<close> whose message is
  \<open>Payment verification timeout\<close>.  With a positive interval waitForPayment always
  returns.
\<close>

theorem C7_waitForPayment:
  assumes "\<forall>j<n. int (elapsed_at (verifyPayment payment_id) intervalMs j) < timeoutMs \<and>
      observes_pending (verifyPayment payment_id j)"
  shows "(int (elapsed_at (verifyPayment payment_id) intervalMs n) < timeoutMs \<and>
        outcome (verifyPayment payment_id n) = Inr verification \<and>
        PaymentVerification.status verification \<noteq> PENDING \<longrightarrow>
        waitForPayment verifyPayment payment_id timeoutMs intervalMs = Some (Inr verification)) \<and>
     (int (elapsed_at (verifyPayment payment_id) intervalMs n) < timeoutMs \<and>
        outcome (verifyPayment payment_id n) = Inl e \<longrightarrow>
        waitForPayment verifyPayment payment_id timeoutMs intervalMs = Some (Inl e)) \<and>
     (\<not> int (elapsed_at (verifyPayment payment_id) intervalMs n) < timeoutMs \<longrightarrow>
        waitForPayment verifyPayment payment_id timeoutMs intervalMs
          = Some (Inl (Error ''Payment verification timeout''))) \<and>
     (0 < intervalMs \<longrightarrow>
        (\<exists>r. waitForPayment verifyPayment payment_id timeoutMs intervalMs = Some r))"
proof -
  let ?el = "elapsed_at (verifyPayment payment_id) intervalMs n"
  have w: "waitForPayment verifyPayment payment_id timeoutMs intervalMs =
      poll_loop (verifyPayment payment_id) timeoutMs intervalMs ?el n"
    unfolding waitForPayment_def using assms by (rule poll_loop_skip)
  have 1: "int ?el < timeoutMs \<Longrightarrow> outcome (verifyPayment payment_id n) = Inr verification \<Longrightarrow>
      PaymentVerification.status verification \<noteq> PENDING \<Longrightarrow>
      poll_loop (verifyPayment payment_id) timeoutMs intervalMs ?el n = Some (Inr verification)"
    by (subst poll_loop.simps) simp
  have 2: "int ?el < timeoutMs \<Longrightarrow> outcome (verifyPayment payment_id n) = Inl e \<Longrightarrow>
      poll_loop (verifyPayment payment_id) timeoutMs intervalMs ?el n = Some (Inl e)"
    by (subst poll_loop.simps) simp
  have 3: "\<not> int ?el < timeoutMs \<Longrightarrow>
      poll_loop (verifyPayment payment_id) timeoutMs intervalMs ?el n
        = Some (Inl (Error ''Payment verification timeout''))"
    by (subst poll_loop.simps) simp
  have 4: "0 < intervalMs \<Longrightarrow>
      \<exists>r. poll_loop (verifyPayment payment_id) timeoutMs intervalMs ?el n = Some r"
    by (rule poll_loop_returns)
  from 1 2 3 4 show ?thesis unfolding w by blast
qed

theorem C7_waitForPayment_witness:
  "waitForPayment
     (\<lambda>p i. \<lparr>outcome = Inr \<lparr>PaymentVerification.success = True, paymentId = p,
          orderId = JStr ''O1'', status = PENDING, amount = JNum 5000, currency = JStr ''012'',
          transactionId = JUndefined, authorizationCode = JUndefined, cardMask = JUndefined,
          paymentDate = None, message = JUndefined, rawResponse = []\<rparr>,
        call_ms = 3, timer_late_ms = 1\<rparr>) ''P1'' 28 10
     = Some (Inl (Error ''Payment verification timeout'')) \<and>
   waitForPayment
     (\<lambda>p i. \<lparr>outcome = Inr \<lparr>PaymentVerification.success = True, paymentId = p,
          orderId = JStr ''O1'', status = (if i = 1 then SUCCESS else PENDING), amount = JNum 5000, currency = JStr ''012'',
          transactionId = JUndefined, authorizationCode = JUndefined, cardMask = JUndefined,
          paymentDate = None, message = JUndefined, rawResponse = []\<rparr>,
        call_ms = 3, timer_late_ms = 1\<rparr>) ''P1'' 50 10
     = Some (Inr \<lparr>PaymentVerification.success = True, paymentId = ''P1'',
          orderId = JStr ''O1'', status = SUCCESS, amount = JNum 5000, currency = JStr ''012'',
          transactionId = JUndefined, authorizationCode = JUndefined, cardMask = JUndefined,
          paymentDate = None, message = JUndefined, rawResponse = []\<rparr>) \<and>
   waitForPayment
     (\<lambda>p i. \<lparr>outcome =
          (if i = 1 then Inl (NetworkError ''No response from SATIM server''
             (operation_details ''verifyPayment''))
           else Inr \<lparr>PaymentVerification.success = True, paymentId = p,
          orderId = JStr ''O1'', status = PENDING, amount = JNum 5000, currency = JStr ''012'',
          transactionId = JUndefined, authorizationCode = JUndefined, cardMask = JUndefined,
          paymentDate = None, message = JUndefined, rawResponse = []\<rparr>),
        call_ms = 3, timer_late_ms = 1\<rparr>) ''P1'' 50 10
     = Some (Inl (NetworkError ''No response from SATIM server''
          (operation_details ''verifyPayment'')))"
proof -
  define v1 :: "string \<Rightarrow> nat \<Rightarrow> poll" where
    "v1 = (\<lambda>p i. \<lparr>outcome = Inr \<lparr>PaymentVerification.success = True, paymentId = p,
          orderId = JStr ''O1'', status = PENDING, amount = JNum 5000, currency = JStr ''012'',
          transactionId = JUndefined, authorizationCode = JUndefined, cardMask = JUndefined,
          paymentDate = None, message = JUndefined, rawResponse = []\<rparr>,
        call_ms = 3, timer_late_ms = 1\<rparr>)"
  define v2 :: "string \<Rightarrow> nat \<Rightarrow> poll" where
    "v2 = (\<lambda>p i. \<lparr>outcome = Inr \<lparr>PaymentVerification.success = True, paymentId = p,
          orderId = JStr ''O1'', status = (if i = 1 then SUCCESS else PENDING), amount = JNum 5000, currency = JStr ''012'',
          transactionId = JUndefined, authorizationCode = JUndefined, cardMask = JUndefined,
          paymentDate = None, message = JUndefined, rawResponse = []\<rparr>,
        call_ms = 3, timer_late_ms = 1\<rparr>)"
  define v3 :: "string \<Rightarrow> nat \<Rightarrow> poll" where
    "v3 = (\<lambda>p i. \<lparr>outcome =
          (if i = 1 then Inl (NetworkError ''No response from SATIM server''
             (operation_details ''verifyPayment''))
           else Inr \<lparr>PaymentVerification.success = True, paymentId = p,
          orderId = JStr ''O1'', status = PENDING, amount = JNum 5000, currency = JStr ''012'',
          transactionId = JUndefined, authorizationCode = JUndefined, cardMask = JUndefined,
          paymentDate = None, message = JUndefined, rawResponse = []\<rparr>),
        call_ms = 3, timer_late_ms = 1\<rparr>)"
  have two: "j < 2 \<longleftrightarrow> j = 0 \<or> j = Suc 0" for j :: nat by auto
  have e1: "elapsed_at (v1 ''P1'') 10 2 = 28"
    by (simp add: numeral_2_eq_2 v1_def)
  have h1: "\<forall>j<2. int (elapsed_at (v1 ''P1'') 10 j) < 28 \<and> observes_pending (v1 ''P1'' j)"
    by (auto simp: two v1_def observes_pending_def)
  have h2: "\<forall>j<1. int (elapsed_at (v2 ''P1'') 10 j) < 50 \<and> observes_pending (v2 ''P1'' j)"
    by (simp add: v2_def observes_pending_def)
  have h3: "\<forall>j<1. int (elapsed_at (v3 ''P1'') 10 j) < 50 \<and> observes_pending (v3 ''P1'' j)"
    by (simp add: v3_def observes_pending_def)
  have a: "waitForPayment v1 ''P1'' 28 10 = Some (Inl (Error ''Payment verification timeout''))"
    using C7_waitForPayment [where verifyPayment = v1 and payment_id = "''P1''" and n = 2
      and timeoutMs = 28 and intervalMs = 10, OF h1, THEN conjunct2, THEN conjunct2,
      THEN conjunct1]
    by (simp add: e1)
  have b: "waitForPayment v2 ''P1'' 50 10
     = Some (Inr \<lparr>PaymentVerification.success = True, paymentId = ''P1'',
          orderId = JStr ''O1'', status = SUCCESS, amount = JNum 5000, currency = JStr ''012'',
          transactionId = JUndefined, authorizationCode = JUndefined, cardMask = JUndefined,
          paymentDate = None, message = JUndefined, rawResponse = []\<rparr>)"
    by (rule C7_waitForPayment [where verifyPayment = v2 and payment_id = "''P1''" and n = 1
      and timeoutMs = 50 and intervalMs = 10, OF h2, THEN conjunct1, rule_format])
      (simp add: v2_def)
  have c: "waitForPayment v3 ''P1'' 50 10
     = Some (Inl (NetworkError ''No response from SATIM server''
          (operation_details ''verifyPayment'')))"
    by (rule C7_waitForPayment [where verifyPayment = v3 and payment_id = "''P1''" and n = 1
      and timeoutMs = 50 and intervalMs = 10, OF h3, THEN conjunct2, THEN conjunct1,
      rule_format])
      (simp add: v3_def)
  from a b c show ?thesis unfolding v1_def v2_def v3_def by (intro conjI)
qed

section \<open>Properties of the errors\<close>

lemma details_SatimError [simp]: "details (SatimError m c sc d) = d"
  by (simp add: SatimError_def)

lemma details_Error [simp]: "details (Error m) = None"
  by (simp add: Error_def)

lemma details_TypeError [simp]: "details (TypeError m) = None"
  by (simp add: TypeError_def)






















lemma details_SignatureError [simp]: "details (SignatureError m d) = d"
  by (simp add: SignatureError_def SatimError_def)









end
